theory Spec2Isabelle
  imports Main "HOL-Library.Word"
begin

unbundle bit_operations_syntax

section \<open>Data model of decaf-callback.c\<close>

text \<open>
  The guest address type \<open>gva_t\<close> is a machine word whose width depends on the target;
  it is \<open>'a word\<close> below, and the records take the address type as their parameter.
  The two target macros the file uses without defining them, \<open>TARGET_PAGE_MASK\<close> and
  \<open>INV_ADDR\<close>, are the fields of a parameter record that every function reading them
  takes as its first argument.
\<close>

record 'w target =
  TARGET_PAGE_MASK :: 'w
  INV_ADDR :: 'w

text \<open>
  A \<open>DECAF_handle\<close> is the address of the \<open>callback_struct\<close> it names; \<open>0\<close> is the
  null pointer. Registration takes the result of \<open>g_malloc\<close> as an argument \<open>blk\<close>: a
  \<open>callback_struct\<close> whose \<open>handle\<close> is the address returned and whose other fields
  are the indeterminate contents of the fresh block, so nothing is assumed about the
  allocator and a field the source leaves unwritten keeps the value it had.
\<close>

type_synonym DECAF_handle = nat

definition DECAF_NULL_HANDLE :: DECAF_handle where
  "DECAF_NULL_HANDLE = 0"

text \<open>
  The enumerations \<open>OCB_t\<close> and \<open>DECAF_callback_type_t\<close> are declared in headers outside
  this file; they have the constants the file names. The functions of the file return
  \<open>0\<close>, \<open>-1\<close> or \<open>NULL_POINTER_ERROR\<close> as their error code.
\<close>

datatype OCB_t = OCB_CONST | OCB_CONST_NOT | OCB_PAGE | OCB_PAGE_NOT | OCB_ALL

datatype DECAF_callback_type_t =
    DECAF_BLOCK_BEGIN_CB
  | DECAF_BLOCK_END_CB
  | DECAF_INSN_BEGIN_CB
  | DECAF_INSN_END_CB
  | DECAF_MEM_READ_CB
  | DECAF_MEM_WRITE_CB
  | DECAF_EIP_CHECK_CB
  | DECAF_KEYSTROKE_CB
  | DECAF_NIC_REC_CB
  | DECAF_NIC_SEND_CB
  | DECAF_OPCODE_RANGE_CB
  | DECAF_TLB_EXEC_CB
  | DECAF_READ_TAINTMEM_CB
  | DECAF_WRITE_TAINTMEM_CB

text \<open>The scope argument of \<open>register_decaf_flush_translation_cache\<close>.\<close>

datatype flush_scope = ALL_CACHE | PAGE_LEVEL | BLOCK_LEVEL

datatype DECAF_errno_t = Ret_0 | Ret_minus_1 | NULL_POINTER_ERROR

text \<open>
  \<open>struct callback_struct\<close>. The field \<open>handle\<close> is the address of the struct itself;
  \<open>enabled\<close> is the \<open>int *\<close> of the source as an address (\<open>0\<close> is \<open>NULL\<close>), read
  through a memory \<open>nat \<Rightarrow> int\<close> at dispatch time; \<open>callback\<close> is the function pointer.
  The fields \<open>from\<close> and \<open>to\<close> of the source are \<open>from_addr\<close> and \<open>to_addr\<close> here.
  The fields are written once, at registration, so the lists and the opcode table hold the
  records by value.
\<close>

record 'w callback_struct =
  handle :: DECAF_handle
  enabled :: nat
  from_addr :: 'w
  to_addr :: 'w
  ocb_type :: OCB_t
  callback :: nat

subsection \<open>Counting tables\<close>

text \<open>
  The counting hashtable and the counting hashmap are declared in
  \<open>shared/decaf-hashtable-wrapper.h\<close>; their code is not in this file. A table is the
  function from a key to its count, \<open>0\<close> for an absent key.
\<close>

type_synonym 'w counting_hashtable = "'w \<Rightarrow> nat"
type_synonym 'w counting_hashmap = "'w \<Rightarrow> 'w \<Rightarrow> nat"

text \<open>Modelled from the spec: a new counting set holds no key.\<close>

definition counting_hashtable_new :: "'w counting_hashtable" where
  "counting_hashtable_new = (\<lambda>k. 0)"

text \<open>Modelled from the spec: a new counting map holds no key.\<close>

definition counting_hashmap_new :: "'w counting_hashmap" where
  "counting_hashmap_new = (\<lambda>k v. 0)"

text \<open>
  Modelled from the spec: \<open>add(k)\<close> increments the count of \<open>k\<close>, creating it with
  count \<open>1\<close> if absent. The result is the new count, which the callers in this file
  compare with \<open>1\<close> to see the step from \<open>0\<close> to \<open>1\<close>.
\<close>

definition counting_hashtable_add ::
  "'w counting_hashtable \<Rightarrow> 'w \<Rightarrow> 'w counting_hashtable \<times> nat" where
  "counting_hashtable_add t k = (t(k := t k + 1), t k + 1)"

text \<open>
  Modelled from the spec: \<open>remove(k)\<close> decrements the count of \<open>k\<close>, removing the key
  at \<open>0\<close>; a decrement below zero is clamped to zero. The result is the new count, which
  the callers compare with \<open>0\<close> to see the step from \<open>1\<close> to \<open>0\<close>.
\<close>

definition counting_hashtable_remove ::
  "'w counting_hashtable \<Rightarrow> 'w \<Rightarrow> 'w counting_hashtable \<times> nat" where
  "counting_hashtable_remove t k = (t(k := t k - 1), t k - 1)"

text \<open>Modelled from the spec: a key is in the set when its count is positive.\<close>

definition counting_hashtable_exist :: "'w counting_hashtable \<Rightarrow> 'w \<Rightarrow> bool" where
  "counting_hashtable_exist t k = (0 < t k)"

text \<open>
  Modelled from the spec: a counting map is a counting set of second keys for each first
  key; \<open>add\<close>, \<open>remove\<close> and the membership test work on the nested set and pass its
  result up.
\<close>

definition counting_hashmap_add ::
  "'w counting_hashmap \<Rightarrow> 'w \<Rightarrow> 'w \<Rightarrow> 'w counting_hashmap \<times> nat" where
  "counting_hashmap_add m k v =
     (let (t, n) = counting_hashtable_add (m k) v in (m(k := t), n))"

text \<open>Modelled from the spec: \<open>remove\<close> on the nested set of the first key.\<close>

definition counting_hashmap_remove ::
  "'w counting_hashmap \<Rightarrow> 'w \<Rightarrow> 'w \<Rightarrow> 'w counting_hashmap \<times> nat" where
  "counting_hashmap_remove m k v =
     (let (t, n) = counting_hashtable_remove (m k) v in (m(k := t), n))"

text \<open>Modelled from the spec: the pair is present when the nested set holds the second key.\<close>

definition counting_hashmap_exist :: "'w counting_hashmap \<Rightarrow> 'w \<Rightarrow> 'w \<Rightarrow> bool" where
  "counting_hashmap_exist m k v = counting_hashtable_exist (m k) v"

subsection \<open>The global state\<close>

text \<open>
  The file's static variables, and \<open>flushes\<close>: the calls made to
  \<open>register_decaf_flush_translation_cache\<close>, oldest first. A table pointer is \<open>None\<close>
  when it is \<open>NULL\<close>. \<open>instructionCallbacks\<close> has the slots \<open>0 .. 0x1ff\<close>. The
  two counters are C \<open>int\<close>s that one registration moves by one; they are integers
  without a bound here.
\<close>

record 'w decaf_state =
  bEnableAllBlockBeginCallbacks :: int
  enableAllBlockBeginCallbacksCount :: int
  bEnableAllBlockEndCallbacks :: int
  enableAllBlockEndCallbacksCount :: int
  pOBBTable :: "'w counting_hashtable option"
  pOBBPageTable :: "'w counting_hashtable option"
  pOBEFromPageTable :: "'w counting_hashtable option"
  pOBEToPageTable :: "'w counting_hashtable option"
  pOBEPageMap :: "'w counting_hashmap option"
  callback_list_heads :: "DECAF_callback_type_t \<Rightarrow> 'w callback_struct list"
  instructionCallbacks :: "nat \<Rightarrow> 'w callback_struct option"
  flushes :: "(flush_scope \<times> 'w) list"

definition register_decaf_flush_translation_cache ::
  "flush_scope \<Rightarrow> 'w \<Rightarrow> 'w decaf_state \<Rightarrow> 'w decaf_state" where
  "register_decaf_flush_translation_cache scope a s = s\<lparr>flushes := flushes s @ [(scope, a)]\<rparr>"

text \<open>\<open>QLIST_INSERT_HEAD\<close>, the search of \<open>QLIST_FOREACH_SAFE\<close> for a handle, \<open>QLIST_REMOVE\<close>.\<close>

definition QLIST_INSERT_HEAD ::
  "DECAF_callback_type_t \<Rightarrow> 'w callback_struct \<Rightarrow> 'w decaf_state \<Rightarrow> 'w decaf_state" where
  "QLIST_INSERT_HEAD ty cb s =
     s\<lparr>callback_list_heads := (callback_list_heads s)(ty := cb # callback_list_heads s ty)\<rparr>"

definition find_handle ::
  "DECAF_callback_type_t \<Rightarrow> DECAF_handle \<Rightarrow> 'w decaf_state \<Rightarrow> 'w callback_struct option" where
  "find_handle ty h s = List.find (\<lambda>cb. handle cb = h) (callback_list_heads s ty)"

definition QLIST_REMOVE ::
  "DECAF_callback_type_t \<Rightarrow> 'w callback_struct \<Rightarrow> 'w decaf_state \<Rightarrow> 'w decaf_state" where
  "QLIST_REMOVE ty cb s =
     s\<lparr>callback_list_heads := (callback_list_heads s)(ty := remove1 cb (callback_list_heads s ty))\<rparr>"

section \<open>Opcode-range callbacks\<close>

text \<open>The loop \<open>for (i = lo; i <= hi; i++) instructionCallbacks[i] = v\<close>.\<close>

function set_slots :: "(nat \<Rightarrow> 'b) \<Rightarrow> 'b \<Rightarrow> nat \<Rightarrow> nat \<Rightarrow> (nat \<Rightarrow> 'b)" where
  "set_slots tab v i hi = (if i \<le> hi then set_slots (tab(i := v)) v (Suc i) hi else tab)"
  by pat_completeness auto
termination
  by (relation "measure (\<lambda>(tab, v, i, hi). Suc hi - i)") auto

declare set_slots.simps [simp del]

text \<open>Two-byte opcodes \<open>0x0fXX\<close> go to the upper half of the table.\<close>

definition normalize_opcode :: "16 word \<Rightarrow> 16 word" where
  "normalize_opcode opc = (if 0x0f00 \<le> opc then 0x100 OR (opc AND 0xff) else opc)"

text \<open>
  \<open>decaf_register_opcode_range_callback\<close>. The result is \<open>None\<close> where the C loop writes
  past the end of \<open>instructionCallbacks\<close> (a slot above \<open>0x1ff\<close>), which C leaves undefined.
\<close>

definition decaf_register_opcode_range_callback ::
  "'a word callback_struct \<Rightarrow> nat \<Rightarrow> nat \<Rightarrow> 16 word \<Rightarrow> 16 word \<Rightarrow> ('a::len) word decaf_state
     \<Rightarrow> ('a word decaf_state \<times> DECAF_handle) option" where
  "decaf_register_opcode_range_callback blk handler condition start_opcode end_opcode s =
     (if end_opcode < start_opcode then Some (s, DECAF_NULL_HANDLE)
      else if handle blk = 0 then Some (s, DECAF_NULL_HANDLE)
      else
        let start_opcode = normalize_opcode start_opcode;
            end_opcode = normalize_opcode end_opcode;
            cb_struct = blk\<lparr>callback := handler, from_addr := ucast start_opcode,
                            to_addr := ucast end_opcode, enabled := condition\<rparr>
        in if start_opcode \<le> end_opcode \<and> 0x1ff < end_opcode then None
           else
             let s1 = s\<lparr>instructionCallbacks :=
                          set_slots (instructionCallbacks s) (Some cb_struct)
                            (unat start_opcode) (unat end_opcode)\<rparr>;
                 s2 = QLIST_INSERT_HEAD DECAF_OPCODE_RANGE_CB cb_struct s1;
                 s3 = register_decaf_flush_translation_cache ALL_CACHE 0 s2
             in Some (s3, handle blk))"

text \<open>\<open>decaf_unregister_opcode_range_callback\<close>.\<close>

definition decaf_unregister_opcode_range_callback ::
  "DECAF_handle \<Rightarrow> ('a::len) word decaf_state \<Rightarrow> 'a word decaf_state \<times> DECAF_errno_t" where
  "decaf_unregister_opcode_range_callback h s =
     (case find_handle DECAF_OPCODE_RANGE_CB h s of
        None \<Rightarrow> (s, Ret_minus_1)
      | Some cb_struct \<Rightarrow>
          if 0x1ff < unat (from_addr cb_struct) \<or> 0x1ff < unat (to_addr cb_struct)
             \<or> to_addr cb_struct < from_addr cb_struct
          then (s, Ret_minus_1)
          else
            let s1 = s\<lparr>instructionCallbacks :=
                         set_slots (instructionCallbacks s) None
                           (unat (from_addr cb_struct)) (unat (to_addr cb_struct))\<rparr>;
                s2 = QLIST_REMOVE DECAF_OPCODE_RANGE_CB cb_struct s1
            in (s2, Ret_0))"

section \<open>Optimized block-begin callbacks\<close>

text \<open>
  \<open>decaf_register_optimized_block_begin_callback\<close>. \<open>OCB_CONST\<close> is turned into
  \<open>OCB_ALL\<close> first; the \<open>default\<close> label shares the \<open>OCB_ALL\<close> case.
\<close>

definition decaf_register_optimized_block_begin_callback ::
  "'a word target \<Rightarrow> 'a word callback_struct \<Rightarrow> nat \<Rightarrow> nat \<Rightarrow> 'a word \<Rightarrow> OCB_t
     \<Rightarrow> ('a::len) word decaf_state \<Rightarrow> 'a word decaf_state \<times> DECAF_handle" where
  "decaf_register_optimized_block_begin_callback tg blk cb_func cb_cond addr type s =
     (if handle blk = 0 then (s, DECAF_NULL_HANDLE)
      else
        let type = (if type = OCB_CONST then OCB_ALL else type);
            cb_struct = blk\<lparr>callback := cb_func, enabled := cb_cond, from_addr := addr,
                            to_addr := INV_ADDR tg, ocb_type := type\<rparr>
        in case type of
             OCB_CONST_NOT \<Rightarrow> (QLIST_INSERT_HEAD DECAF_BLOCK_BEGIN_CB cb_struct s, handle blk)
           | OCB_PAGE_NOT \<Rightarrow> (QLIST_INSERT_HEAD DECAF_BLOCK_BEGIN_CB cb_struct s, handle blk)
           | OCB_PAGE \<Rightarrow>
               (let addr = addr AND TARGET_PAGE_MASK tg
                in case pOBBPageTable s of
                     None \<Rightarrow> (s, DECAF_NULL_HANDLE)
                   | Some t \<Rightarrow>
                       let (t', n) = counting_hashtable_add t addr;
                           s1 = s\<lparr>pOBBPageTable := Some t'\<rparr>;
                           s2 = (if n = 1
                                 then register_decaf_flush_translation_cache PAGE_LEVEL addr s1
                                 else s1)
                       in (QLIST_INSERT_HEAD DECAF_BLOCK_BEGIN_CB cb_struct s2, handle blk))
           | _ \<Rightarrow>
               (let s1 = s\<lparr>bEnableAllBlockBeginCallbacks := 1,
                           enableAllBlockBeginCallbacksCount :=
                             enableAllBlockBeginCallbacksCount s + 1\<rparr>;
                    s2 = (if enableAllBlockBeginCallbacksCount s1 = 1
                          then register_decaf_flush_translation_cache ALL_CACHE 0 s1
                          else s1)
                in (QLIST_INSERT_HEAD DECAF_BLOCK_BEGIN_CB cb_struct s2, handle blk)))"

text \<open>
  \<open>decaf_unregister_optimized_block_begin_callback\<close>. The switch has the cases
  \<open>default\<close>/\<open>OCB_ALL\<close> and \<open>OCB_PAGE\<close> only.
\<close>

definition decaf_unregister_optimized_block_begin_callback ::
  "DECAF_handle \<Rightarrow> ('a::len) word decaf_state \<Rightarrow> 'a word decaf_state \<times> DECAF_errno_t" where
  "decaf_unregister_optimized_block_begin_callback h s =
     (case find_handle DECAF_BLOCK_BEGIN_CB h s of
        None \<Rightarrow> (s, Ret_minus_1)
      | Some cb_struct \<Rightarrow>
          (case ocb_type cb_struct of
             OCB_PAGE \<Rightarrow>
               (case pOBBPageTable s of
                  None \<Rightarrow> (s, NULL_POINTER_ERROR)
                | Some t \<Rightarrow>
                    let (t', n) = counting_hashtable_remove t (from_addr cb_struct);
                        s1 = s\<lparr>pOBBPageTable := Some t'\<rparr>;
                        s2 = (if n = 0
                              then register_decaf_flush_translation_cache PAGE_LEVEL
                                     (from_addr cb_struct) s1
                              else s1)
                    in (QLIST_REMOVE DECAF_BLOCK_BEGIN_CB cb_struct s2, Ret_0))
           | _ \<Rightarrow>
               (let s1 = s\<lparr>enableAllBlockBeginCallbacksCount :=
                             enableAllBlockBeginCallbacksCount s - 1\<rparr>;
                    s2 = (if enableAllBlockBeginCallbacksCount s1 = 0
                          then register_decaf_flush_translation_cache ALL_CACHE 0
                                 (s1\<lparr>bEnableAllBlockBeginCallbacks := 0\<rparr>)
                          else if enableAllBlockBeginCallbacksCount s1 < 0
                          then s1\<lparr>enableAllBlockBeginCallbacksCount := 0\<rparr>
                          else s1)
                in (QLIST_REMOVE DECAF_BLOCK_BEGIN_CB cb_struct s2, Ret_0))))"

section \<open>Optimized block-end callbacks\<close>

text \<open>The three table branches shared by the two block-end registration functions.\<close>

definition register_block_end_tables ::
  "'a word target \<Rightarrow> 'a word callback_struct \<Rightarrow> 'a word \<Rightarrow> 'a word
     \<Rightarrow> ('a::len) word decaf_state \<Rightarrow> 'a word decaf_state \<times> DECAF_handle" where
  "register_block_end_tables tg cb_struct frm to s =
     (if to = INV_ADDR tg then
        (case pOBEFromPageTable s of
           None \<Rightarrow> (s, DECAF_NULL_HANDLE)
         | Some t \<Rightarrow>
             let (t', n) = counting_hashtable_add t (frm AND TARGET_PAGE_MASK tg);
                 s1 = s\<lparr>pOBEFromPageTable := Some t'\<rparr>;
                 s2 = (if n = 1 then register_decaf_flush_translation_cache PAGE_LEVEL frm s1
                       else s1)
             in (QLIST_INSERT_HEAD DECAF_BLOCK_END_CB cb_struct s2, handle cb_struct))
      else if frm = INV_ADDR tg then
        (case pOBEToPageTable s of
           None \<Rightarrow> (s, DECAF_NULL_HANDLE)
         | Some t \<Rightarrow>
             let (t', n) = counting_hashtable_add t (to AND TARGET_PAGE_MASK tg);
                 s1 = s\<lparr>pOBEToPageTable := Some t'\<rparr>;
                 s2 = (if n = 1 then register_decaf_flush_translation_cache ALL_CACHE 0 s1
                       else s1)
             in (QLIST_INSERT_HEAD DECAF_BLOCK_END_CB cb_struct s2, handle cb_struct))
      else
        (case pOBEPageMap s of
           None \<Rightarrow> (s, DECAF_NULL_HANDLE)
         | Some m \<Rightarrow>
             let (m', n) = counting_hashmap_add m (frm AND TARGET_PAGE_MASK tg)
                             (to AND TARGET_PAGE_MASK tg);
                 s1 = s\<lparr>pOBEPageMap := Some m'\<rparr>;
                 s2 = (if n = 1 then register_decaf_flush_translation_cache PAGE_LEVEL frm s1
                       else s1)
             in (QLIST_INSERT_HEAD DECAF_BLOCK_END_CB cb_struct s2, handle cb_struct)))"

text \<open>\<open>decaf_register_optimized_block_end_callback\<close>.\<close>

definition decaf_register_optimized_block_end_callback ::
  "'a word target \<Rightarrow> 'a word callback_struct \<Rightarrow> nat \<Rightarrow> nat \<Rightarrow> 'a word \<Rightarrow> 'a word
     \<Rightarrow> ('a::len) word decaf_state \<Rightarrow> 'a word decaf_state \<times> DECAF_handle" where
  "decaf_register_optimized_block_end_callback tg blk cb_func cb_cond frm to s =
     (if handle blk = 0 then (s, DECAF_NULL_HANDLE)
      else
        let cb_struct = blk\<lparr>callback := cb_func, enabled := cb_cond, from_addr := frm,
                            to_addr := to, ocb_type := OCB_ALL\<rparr>
        in if frm = INV_ADDR tg \<and> to = INV_ADDR tg then
             (let s1 = s\<lparr>enableAllBlockEndCallbacksCount :=
                           enableAllBlockEndCallbacksCount s + 1,
                         bEnableAllBlockEndCallbacks := 1\<rparr>;
                  s2 = (if enableAllBlockEndCallbacksCount s1 = 1
                        then register_decaf_flush_translation_cache ALL_CACHE 0 s1
                        else s1)
              in (QLIST_INSERT_HEAD DECAF_BLOCK_END_CB cb_struct s2, handle blk))
           else register_block_end_tables tg cb_struct frm to s)"

text \<open>
  \<open>decaf_register_match_block_end_callback\<close>: the same, but a registration with both
  addresses wild is refused.
\<close>

definition decaf_register_match_block_end_callback ::
  "'a word target \<Rightarrow> 'a word callback_struct \<Rightarrow> nat \<Rightarrow> nat \<Rightarrow> 'a word \<Rightarrow> 'a word
     \<Rightarrow> ('a::len) word decaf_state \<Rightarrow> 'a word decaf_state \<times> DECAF_handle" where
  "decaf_register_match_block_end_callback tg blk cb_func cb_cond frm to s =
     (if handle blk = 0 then (s, DECAF_NULL_HANDLE)
      else
        let cb_struct = blk\<lparr>callback := cb_func, enabled := cb_cond, from_addr := frm,
                            to_addr := to, ocb_type := OCB_ALL\<rparr>
        in if frm = INV_ADDR tg \<and> to = INV_ADDR tg then (s, DECAF_NULL_HANDLE)
           else register_block_end_tables tg cb_struct frm to s)"

text \<open>
  \<open>decaf_unregister_optimized_block_end_callback\<close>. The source hands the table pointers to
  the counting-table functions without a null check; the result is \<open>None\<close> where the
  pointer handed over is \<open>NULL\<close>, a call nothing here describes.
\<close>

definition decaf_unregister_optimized_block_end_callback ::
  "'a word target \<Rightarrow> DECAF_handle \<Rightarrow> ('a::len) word decaf_state
     \<Rightarrow> ('a word decaf_state \<times> DECAF_errno_t) option" where
  "decaf_unregister_optimized_block_end_callback tg h s =
     (case find_handle DECAF_BLOCK_END_CB h s of
        None \<Rightarrow> Some (s, Ret_minus_1)
      | Some cb_struct \<Rightarrow>
          if from_addr cb_struct = INV_ADDR tg \<and> to_addr cb_struct = INV_ADDR tg then
            (let s1 = s\<lparr>enableAllBlockEndCallbacksCount :=
                          enableAllBlockEndCallbacksCount s - 1\<rparr>;
                 s2 = (if enableAllBlockEndCallbacksCount s1 = 0
                       then (register_decaf_flush_translation_cache ALL_CACHE 0 s1)
                              \<lparr>bEnableAllBlockEndCallbacks := 0\<rparr>
                       else if enableAllBlockEndCallbacksCount s1 < 0
                       then s1\<lparr>enableAllBlockEndCallbacksCount := 0\<rparr>
                       else s1)
             in Some (QLIST_REMOVE DECAF_BLOCK_END_CB cb_struct s2, Ret_0))
          else if to_addr cb_struct = INV_ADDR tg then
            (let frm = from_addr cb_struct AND TARGET_PAGE_MASK tg
             in case pOBEFromPageTable s of
                  None \<Rightarrow> None
                | Some t \<Rightarrow>
                    let (t', n) = counting_hashtable_remove t frm;
                        s1 = s\<lparr>pOBEFromPageTable := Some t'\<rparr>;
                        s2 = (if n = 0
                              then register_decaf_flush_translation_cache PAGE_LEVEL frm s1
                              else s1)
                    in Some (QLIST_REMOVE DECAF_BLOCK_END_CB cb_struct s2, Ret_0))
          else if from_addr cb_struct = INV_ADDR tg then
            (let to = to_addr cb_struct AND TARGET_PAGE_MASK tg
             in case pOBEToPageTable s of
                  None \<Rightarrow> None
                | Some t \<Rightarrow>
                    let (t', n) = counting_hashtable_remove t to;
                        s1 = s\<lparr>pOBEToPageTable := Some t'\<rparr>;
                        s2 = (if n = 0
                              then register_decaf_flush_translation_cache ALL_CACHE 0 s1
                              else s1)
                    in Some (QLIST_REMOVE DECAF_BLOCK_END_CB cb_struct s2, Ret_0))
          else
            (case pOBEPageMap s of
               None \<Rightarrow> None
             | Some m \<Rightarrow>
                 let (m', n) = counting_hashmap_remove m
                                 (from_addr cb_struct AND TARGET_PAGE_MASK tg)
                                 (to_addr cb_struct AND TARGET_PAGE_MASK tg);
                     s1 = s\<lparr>pOBEPageMap := Some m'\<rparr>;
                     s2 = (if n = 0
                           then register_decaf_flush_translation_cache PAGE_LEVEL
                                  (from_addr cb_struct AND TARGET_PAGE_MASK tg) s1
                           else s1)
                 in Some (QLIST_REMOVE DECAF_BLOCK_END_CB cb_struct s2, Ret_0)))"

section \<open>The generic registration interface\<close>

text \<open>\<open>decaf_register_callback\<close>.\<close>

definition decaf_register_callback ::
  "'a word target \<Rightarrow> 'a word callback_struct \<Rightarrow> DECAF_callback_type_t \<Rightarrow> nat \<Rightarrow> nat
     \<Rightarrow> ('a::len) word decaf_state \<Rightarrow> 'a word decaf_state \<times> DECAF_handle" where
  "decaf_register_callback tg blk cb_type cb_func cb_cond s =
     (if cb_type = DECAF_BLOCK_BEGIN_CB then
        decaf_register_optimized_block_begin_callback tg blk cb_func cb_cond (INV_ADDR tg)
          OCB_ALL s
      else if cb_type = DECAF_BLOCK_END_CB then
        decaf_register_optimized_block_end_callback tg blk cb_func cb_cond (INV_ADDR tg)
          (INV_ADDR tg) s
      else if handle blk = 0 then (s, DECAF_NULL_HANDLE)
      else
        let cb_struct = blk\<lparr>callback := cb_func, enabled := cb_cond\<rparr>;
            s1 = (if cb_type = DECAF_TLB_EXEC_CB then s
                  else if callback_list_heads s cb_type = []
                  then register_decaf_flush_translation_cache ALL_CACHE 0 s
                  else s)
        in (QLIST_INSERT_HEAD cb_type cb_struct s1, handle blk))"

text \<open>\<open>decaf_unregister_callback\<close>.\<close>

definition decaf_unregister_callback ::
  "'a word target \<Rightarrow> DECAF_callback_type_t \<Rightarrow> DECAF_handle \<Rightarrow> ('a::len) word decaf_state
     \<Rightarrow> ('a word decaf_state \<times> DECAF_errno_t) option" where
  "decaf_unregister_callback tg cb_type h s =
     (if cb_type = DECAF_BLOCK_BEGIN_CB then
        Some (decaf_unregister_optimized_block_begin_callback h s)
      else if cb_type = DECAF_BLOCK_END_CB then
        decaf_unregister_optimized_block_end_callback tg h s
      else
        case find_handle cb_type h s of
          None \<Rightarrow> Some (s, Ret_minus_1)
        | Some cb_struct \<Rightarrow>
            let s1 = QLIST_REMOVE cb_type cb_struct s
            in if cb_type = DECAF_TLB_EXEC_CB then Some (s1, Ret_0)
               else if callback_list_heads s1 cb_type = []
               then Some (register_decaf_flush_translation_cache ALL_CACHE 0 s1, Ret_0)
               else Some (s1, Ret_0))"

text \<open>
  \<open>decaf_callback_init\<close>, with every \<open>counting_hashtable_new\<close> returning a fresh empty
  table.
\<close>

definition decaf_callback_init :: "'w decaf_state \<Rightarrow> 'w decaf_state" where
  "decaf_callback_init s =
     s\<lparr>callback_list_heads := (\<lambda>i. []),
       pOBBTable := Some counting_hashtable_new,
       pOBBPageTable := Some counting_hashtable_new,
       pOBEFromPageTable := Some counting_hashtable_new,
       pOBEToPageTable := Some counting_hashtable_new,
       pOBEPageMap := Some counting_hashmap_new,
       bEnableAllBlockBeginCallbacks := 0,
       enableAllBlockBeginCallbacksCount := 0,
       bEnableAllBlockEndCallbacks := 0,
       enableAllBlockEndCallbacksCount := 0\<rparr>"

section \<open>Applicability queries\<close>

text \<open>
  The queries return \<open>int\<close> \<open>1\<close> or \<open>0\<close> in the source, \<open>True\<close> or \<open>False\<close> here; the
  result is \<open>None\<close> where a \<open>NULL\<close> table pointer reaches \<open>counting_hashtable_exist\<close>.
\<close>

definition decaf_is_callback_needed :: "DECAF_callback_type_t \<Rightarrow> 'w decaf_state \<Rightarrow> bool" where
  "decaf_is_callback_needed cb_type s = (callback_list_heads s cb_type \<noteq> [])"

definition decaf_is_block_begin_callback_needed ::
  "'a word target \<Rightarrow> 'a word \<Rightarrow> ('a::len) word decaf_state \<Rightarrow> bool option" where
  "decaf_is_block_begin_callback_needed tg pc s =
     (if bEnableAllBlockBeginCallbacks s \<noteq> 0 then Some True
      else case pOBBPageTable s of
             None \<Rightarrow> None
           | Some pt \<Rightarrow>
               if counting_hashtable_exist pt (pc AND TARGET_PAGE_MASK tg) then Some True
               else case pOBBTable s of
                      None \<Rightarrow> None
                    | Some t \<Rightarrow> if counting_hashtable_exist t pc then Some True else Some False)"

definition decaf_is_block_end_callback_needed ::
  "'a word target \<Rightarrow> 'a word \<Rightarrow> 'a word \<Rightarrow> ('a::len) word decaf_state \<Rightarrow> bool option" where
  "decaf_is_block_end_callback_needed tg frm to s =
     (if bEnableAllBlockEndCallbacks s \<noteq> 0 then Some True
      else
        let frm = frm AND TARGET_PAGE_MASK tg
        in case pOBEFromPageTable s of
             None \<Rightarrow> None
           | Some ft \<Rightarrow>
               if counting_hashtable_exist ft frm then Some True
               else if to = INV_ADDR tg then Some False
               else
                 let to = to AND TARGET_PAGE_MASK tg
                 in case pOBEToPageTable s of
                      None \<Rightarrow> None
                    | Some tt \<Rightarrow>
                        if counting_hashtable_exist tt to then Some True
                        else case pOBEPageMap s of
                               None \<Rightarrow> None
                             | Some m \<Rightarrow> Some (counting_hashmap_exist m frm to))"

section \<open>Dispatch\<close>

text \<open>
  The handlers are plugin code outside this file. A dispatch function returns the records
  whose handler it calls, in the order of the calls; the list walked is the one at entry,
  that is, the handlers are taken not to register or unregister during the walk. \<open>mem\<close>
  is the memory the \<open>enabled\<close> pointers are read from.
\<close>

definition cb_enabled :: "(nat \<Rightarrow> int) \<Rightarrow> 'w callback_struct \<Rightarrow> bool" where
  "cb_enabled mem cb_struct = (enabled cb_struct = 0 \<or> mem (enabled cb_struct) \<noteq> 0)"

text \<open>
  The body of the loop of \<open>helper_decaf_invoke_block_begin_callback\<close> for one record and
  a block starting at \<open>pc\<close>: is the handler called?
\<close>

definition block_begin_calls ::
  "'a word target \<Rightarrow> (nat \<Rightarrow> int) \<Rightarrow> 'a word \<Rightarrow> ('a::len) word callback_struct \<Rightarrow> bool" where
  "block_begin_calls tg mem pc cb_struct =
     (if cb_enabled mem cb_struct then
        (case ocb_type cb_struct of
           OCB_PAGE \<Rightarrow>
             from_addr cb_struct AND TARGET_PAGE_MASK tg = pc AND TARGET_PAGE_MASK tg
         | _ \<Rightarrow> True)
      else False)"

text \<open>
  \<open>helper_decaf_invoke_block_begin_callback\<close>; \<open>cs\<close> is the \<open>CPUState\<close> pointer (\<open>0\<close> is
  \<open>NULL\<close>), \<open>tb\<close> is \<open>None\<close> for a null block and \<open>Some pc\<close> for a block whose \<open>pc\<close>
  field is \<open>pc\<close>.
\<close>

definition helper_decaf_invoke_block_begin_callback ::
  "'a word target \<Rightarrow> (nat \<Rightarrow> int) \<Rightarrow> nat \<Rightarrow> 'a word option \<Rightarrow> ('a::len) word decaf_state
     \<Rightarrow> 'a word callback_struct list" where
  "helper_decaf_invoke_block_begin_callback tg mem cs tb s =
     (case tb of
        None \<Rightarrow> []
      | Some pc \<Rightarrow>
          if cs = 0 then []
          else filter (block_begin_calls tg mem pc) (callback_list_heads s DECAF_BLOCK_BEGIN_CB))"

text \<open>
  The body of the loop of \<open>helper_decaf_invoke_block_end_callback\<close> for one record, with
  \<open>cur_pc\<close> the address the block was entered from and \<open>next_pc\<close> the address resolved
  from the CPU state.
\<close>

definition block_end_calls ::
  "'a word target \<Rightarrow> (nat \<Rightarrow> int) \<Rightarrow> 'a word \<Rightarrow> 'a word \<Rightarrow> ('a::len) word callback_struct
     \<Rightarrow> bool" where
  "block_end_calls tg mem cur_pc next_pc cb_struct =
     (if cb_enabled mem cb_struct then
        (if to_addr cb_struct = INV_ADDR tg then True
         else if to_addr cb_struct AND TARGET_PAGE_MASK tg = next_pc AND TARGET_PAGE_MASK tg
         then
           (if from_addr cb_struct = INV_ADDR tg then True
            else if from_addr cb_struct AND TARGET_PAGE_MASK tg
                    = cur_pc AND TARGET_PAGE_MASK tg
            then True
            else False)
         else False)
      else False)"

text \<open>
  \<open>helper_decaf_invoke_block_end_callback\<close>; \<open>cs\<close> is \<open>None\<close> for a null \<open>CPUState\<close> and
  \<open>Some next_pc\<close> for a CPU whose program counter (the target's register read in the
  \<open>#ifdef\<close> branches) is \<open>next_pc\<close>.
\<close>

definition helper_decaf_invoke_block_end_callback ::
  "'a word target \<Rightarrow> (nat \<Rightarrow> int) \<Rightarrow> 'a word option \<Rightarrow> 'a word \<Rightarrow> ('a::len) word decaf_state
     \<Rightarrow> 'a word callback_struct list" where
  "helper_decaf_invoke_block_end_callback tg mem cs frm s =
     (case cs of
        None \<Rightarrow> []
      | Some next_pc \<Rightarrow>
          filter (block_end_calls tg mem frm next_pc) (callback_list_heads s DECAF_BLOCK_END_CB))"

text \<open>
  The enumeration \<open>OpcodeRangeCallbackConditions\<close> is declared in a header that is not
  part of this file; its five values are parameters.
\<close>

record opcode_conditions =
  DECAF_USER_TO_USER_ONLY :: int
  DECAF_USER_TO_KERNEL_ONLY :: int
  DECAF_KERNEL_TO_USER_ONLY :: int
  DECAF_KERNEL_TO_KERNEL_ONLY :: int
  DECAF_ALL :: int

definition kernel_base :: nat where
  "kernel_base = 0x80000000"

text \<open>
  The class \<open>temp\<close> that \<open>helper_decaf_invoke_opcode_range_callback\<close> computes for a
  transition, with the four \<open>int\<close> flags of the source.
\<close>

definition transition_class :: "opcode_conditions \<Rightarrow> ('a::len) word \<Rightarrow> 'a word \<Rightarrow> int" where
  "transition_class oc eip next_eip =
     (let from_kernel = (if kernel_base < unat eip then 1 else 0 :: int);
          from_user = (if kernel_base < unat eip then 0 else 1 :: int);
          to_kernel = (if kernel_base < unat next_eip then 1 else 0 :: int);
          to_user = (if kernel_base < unat next_eip then 0 else 1 :: int)
      in if from_user AND to_user \<noteq> 0 then DECAF_USER_TO_USER_ONLY oc
         else if from_user AND to_kernel \<noteq> 0 then DECAF_USER_TO_KERNEL_ONLY oc
         else if from_kernel AND to_user \<noteq> 0 then DECAF_KERNEL_TO_USER_ONLY oc
         else DECAF_KERNEL_TO_KERNEL_ONLY oc)"

text \<open>
  \<open>helper_decaf_invoke_opcode_range_callback\<close>. The result is \<open>None\<close> where the source
  reads past \<open>instructionCallbacks\<close> (\<open>op\<close> above \<open>0x1ff\<close>) or dereferences a null
  \<open>enabled\<close> pointer. The test before the early return is the source's
  \<open>temp & (*(cb_struct->enabled) == 0)\<close>, in which \<open>==\<close> binds tighter than \<open>&\<close>.
\<close>

definition helper_decaf_invoke_opcode_range_callback ::
  "opcode_conditions \<Rightarrow> (nat \<Rightarrow> int) \<Rightarrow> nat \<Rightarrow> 'a word \<Rightarrow> 'a word \<Rightarrow> 32 word
     \<Rightarrow> ('a::len) word decaf_state \<Rightarrow> 'a word callback_struct list option" where
  "helper_decaf_invoke_opcode_range_callback oc mem cs eip next_eip opc s =
     (if 0x1ff < unat opc then None
      else case instructionCallbacks s (unat opc) of
             None \<Rightarrow> Some []
           | Some cb_struct \<Rightarrow>
               if cs = 0 then Some []
               else if enabled cb_struct = 0 then None
               else if mem (enabled cb_struct) \<noteq> DECAF_ALL oc then
                 (let temp = transition_class oc eip next_eip
                  in if temp AND (if mem (enabled cb_struct) = 0 then 1 else 0) \<noteq> 0
                     then Some []
                     else Some [cb_struct])
               else Some [cb_struct])"

section \<open>The registration interface as a whole\<close>

text \<open>
  One call of a registration or unregistration function of the file, with its arguments,
  and the state it leaves; \<open>None\<close> where the function's model has no result.
\<close>

datatype 'w api_call =
    Register_opcode_range "'w callback_struct" nat nat "16 word" "16 word"
  | Unregister_opcode_range DECAF_handle
  | Register_block_begin "'w callback_struct" nat nat 'w OCB_t
  | Unregister_block_begin DECAF_handle
  | Register_block_end "'w callback_struct" nat nat 'w 'w
  | Register_match_block_end "'w callback_struct" nat nat 'w 'w
  | Unregister_block_end DECAF_handle
  | Register_callback "'w callback_struct" DECAF_callback_type_t nat nat
  | Unregister_callback DECAF_callback_type_t DECAF_handle

fun api_step ::
  "'a word target \<Rightarrow> 'a word api_call \<Rightarrow> ('a::len) word decaf_state
     \<Rightarrow> 'a word decaf_state option" where
  "api_step tg (Register_opcode_range blk f c a b) s =
     map_option fst (decaf_register_opcode_range_callback blk f c a b s)"
| "api_step tg (Unregister_opcode_range h) s =
     Some (fst (decaf_unregister_opcode_range_callback h s))"
| "api_step tg (Register_block_begin blk f c addr ty) s =
     Some (fst (decaf_register_optimized_block_begin_callback tg blk f c addr ty s))"
| "api_step tg (Unregister_block_begin h) s =
     Some (fst (decaf_unregister_optimized_block_begin_callback h s))"
| "api_step tg (Register_block_end blk f c frm to) s =
     Some (fst (decaf_register_optimized_block_end_callback tg blk f c frm to s))"
| "api_step tg (Register_match_block_end blk f c frm to) s =
     Some (fst (decaf_register_match_block_end_callback tg blk f c frm to s))"
| "api_step tg (Unregister_block_end h) s =
     map_option fst (decaf_unregister_optimized_block_end_callback tg h s)"
| "api_step tg (Register_callback blk ty f c) s =
     Some (fst (decaf_register_callback tg blk ty f c s))"
| "api_step tg (Unregister_callback ty h) s =
     map_option fst (decaf_unregister_callback tg ty h s)"

text \<open>A sequence of such calls, one after the other.\<close>

fun api_run ::
  "'a word target \<Rightarrow> 'a word api_call list \<Rightarrow> ('a::len) word decaf_state
     \<Rightarrow> 'a word decaf_state option" where
  "api_run tg [] s = Some s"
| "api_run tg (call # calls) s =
     (case api_step tg call s of None \<Rightarrow> None | Some s' \<Rightarrow> api_run tg calls s')"

text \<open>
  The count a table holds for a key (\<open>0\<close> for a table not allocated), the two kinds of
  change of a count between two states, and the invalidation of the page \<open>k\<close>: the call
  has added exactly one entry to \<open>flushes\<close>, of scope \<open>PAGE_LEVEL\<close>, and the page of its
  address (the address masked with \<open>TARGET_PAGE_MASK\<close>) is \<open>k\<close>.
\<close>

definition table_count :: "'w counting_hashtable option \<Rightarrow> 'w \<Rightarrow> nat" where
  "table_count t k = (case t of None \<Rightarrow> 0 | Some c \<Rightarrow> c k)"

definition map_count :: "'w counting_hashmap option \<Rightarrow> 'w \<Rightarrow> 'w \<Rightarrow> nat" where
  "map_count m k v = (case m of None \<Rightarrow> 0 | Some c \<Rightarrow> c k v)"

definition zero_one :: "nat \<Rightarrow> nat \<Rightarrow> bool" where
  "zero_one a b = (a = 0 \<and> b = 1 \<or> a = 1 \<and> b = 0)"

definition nonzero_change :: "nat \<Rightarrow> nat \<Rightarrow> bool" where
  "nonzero_change a b = (0 < a \<and> 0 < b \<and> a \<noteq> b)"

definition page_flush ::
  "'a word target \<Rightarrow> ('a::len) word decaf_state \<Rightarrow> 'a word decaf_state \<Rightarrow> 'a word \<Rightarrow> bool" where
  "page_flush tg s s' k =
     (flushes s' = flushes s @ [(PAGE_LEVEL, snd (last (flushes s')))]
      \<and> snd (last (flushes s')) AND TARGET_PAGE_MASK tg = k)"

text \<open>The invalidation policy for one key \<open>k\<close> (and second key \<open>v\<close> of the page map).\<close>

definition invalidation_policy ::
  "'a word target \<Rightarrow> ('a::len) word decaf_state \<Rightarrow> 'a word decaf_state \<Rightarrow> 'a word \<Rightarrow> 'a word
     \<Rightarrow> bool" where
  "invalidation_policy tg s s' k v =
    ((zero_one (table_count (pOBBPageTable s) k) (table_count (pOBBPageTable s') k)
        \<longrightarrow> page_flush tg s s' k) \<and>
     (zero_one (table_count (pOBEFromPageTable s) k) (table_count (pOBEFromPageTable s') k)
        \<longrightarrow> page_flush tg s s' k) \<and>
     (zero_one (map_count (pOBEPageMap s) k v) (map_count (pOBEPageMap s') k v)
        \<longrightarrow> page_flush tg s s' k) \<and>
     (zero_one (table_count (pOBEToPageTable s) k) (table_count (pOBEToPageTable s') k)
        \<longrightarrow> flushes s' = flushes s @ [(ALL_CACHE, 0)]) \<and>
     (nonzero_change (table_count (pOBBPageTable s) k) (table_count (pOBBPageTable s') k)
        \<longrightarrow> flushes s' = flushes s) \<and>
     (nonzero_change (table_count (pOBEFromPageTable s) k)
          (table_count (pOBEFromPageTable s') k)
        \<longrightarrow> flushes s' = flushes s) \<and>
     (nonzero_change (map_count (pOBEPageMap s) k v) (map_count (pOBEPageMap s') k v)
        \<longrightarrow> flushes s' = flushes s) \<and>
     (nonzero_change (table_count (pOBEToPageTable s) k) (table_count (pOBEToPageTable s') k)
        \<longrightarrow> flushes s' = flushes s))"

section \<open>The state at program start\<close>

text \<open>
  C initialises the file's static variables to zero: the counters and flags are \<open>0\<close>, the
  table pointers \<open>NULL\<close>, the list heads and the opcode table empty.
\<close>

definition static_init :: "'w decaf_state" where
  "static_init =
     \<lparr>bEnableAllBlockBeginCallbacks = 0, enableAllBlockBeginCallbacksCount = 0,
      bEnableAllBlockEndCallbacks = 0, enableAllBlockEndCallbacksCount = 0,
      pOBBTable = None, pOBBPageTable = None, pOBEFromPageTable = None,
      pOBEToPageTable = None, pOBEPageMap = None,
      callback_list_heads = (\<lambda>i. []), instructionCallbacks = (\<lambda>i. None), flushes = []\<rparr>"

section \<open>Properties\<close>

lemma set_slots_apply:
  "set_slots tab v i hi k = (if i \<le> k \<and> k \<le> hi then v else tab k)"
proof (induction tab v i hi rule: set_slots.induct)
  case (1 tab v i hi)
  show ?case
  proof (cases "i \<le> hi")
    case True
    have "set_slots tab v i hi k = set_slots (tab(i := v)) v (Suc i) hi k"
      using True by (subst set_slots.simps) simp
    also have "\<dots> = (if Suc i \<le> k \<and> k \<le> hi then v else (tab(i := v)) k)"
      using "1.IH" [OF True] .
    also have "\<dots> = (if i \<le> k \<and> k \<le> hi then v else tab k)"
      using True by auto
    finally show ?thesis .
  next
    case False
    then show ?thesis
      by (subst set_slots.simps) auto
  qed
qed

subsection \<open>Helper facts on opcodes and lists\<close>

lemma normalize_opcode_low:
  assumes "opc < 0x0f00"
  shows "normalize_opcode opc = opc"
proof -
  have "\<not> 0x0f00 \<le> opc"
    using assms by (simp only: not_le)
  then show ?thesis
    by (simp add: normalize_opcode_def)
qed

lemma unat_ucast_opcode:
  fixes w :: "16 word"
  assumes "16 \<le> LENGTH('a::len)"
  shows "unat (ucast w :: 'a word) = unat w"
proof -
  have "is_up (ucast :: 16 word \<Rightarrow> 'a word)"
    using assms by (simp add: is_up)
  then have "uint (ucast w :: 'a word) = uint w"
    by (rule uint_up_ucast)
  then show ?thesis
    by (simp only: unat_eq_nat_uint)
qed

lemma register_opcode_range_in_table:
  assumes "start_opcode \<le> end_opcode" "end_opcode \<le> 0x1ff" "handle blk \<noteq> 0"
  shows "decaf_register_opcode_range_callback blk f c start_opcode end_opcode s =
    Some (s\<lparr>instructionCallbacks :=
              set_slots (instructionCallbacks s)
                (Some (blk\<lparr>callback := f, from_addr := ucast start_opcode,
                            to_addr := ucast end_opcode, enabled := c\<rparr>))
                (unat start_opcode) (unat end_opcode),
            callback_list_heads := (callback_list_heads s)
              (DECAF_OPCODE_RANGE_CB :=
                 blk\<lparr>callback := f, from_addr := ucast start_opcode,
                      to_addr := ucast end_opcode, enabled := c\<rparr>
                 # callback_list_heads s DECAF_OPCODE_RANGE_CB),
            flushes := flushes s @ [(ALL_CACHE, 0)]\<rparr>, handle blk)"
proof -
  have lo: "start_opcode < 0x0f00" and hi: "end_opcode < 0x0f00"
    using assms(1,2) by (auto simp: word_le_nat_alt word_less_nat_alt)
  have n1: "\<not> end_opcode < start_opcode" and n2: "\<not> 0x1ff < end_opcode"
    using assms(1,2) by simp_all
  show ?thesis
    using assms(3) n1 n2
    by (simp add: decaf_register_opcode_range_callback_def normalize_opcode_low [OF lo]
        normalize_opcode_low [OF hi] Let_def QLIST_INSERT_HEAD_def
        register_decaf_flush_translation_cache_def)
qed

section \<open>Opcode-range registration\<close>

text \<open>
  C8. A registration whose \<open>end_opcode\<close> is below its \<open>start_opcode\<close> returns the null
  handle and leaves the whole state as it was: the opcode table, every callback list, every
  filter table and counter, and the record of cache invalidations.
\<close>

theorem register_opcode_range_rejects:
  "end_opcode < start_opcode \<Longrightarrow>
   decaf_register_opcode_range_callback blk handler condition start_opcode end_opcode s
     = Some (s, DECAF_NULL_HANDLE)"
  by (simp add: decaf_register_opcode_range_callback_def)

theorem register_opcode_range_rejects_witness:
  "(0x10 :: 16 word) < 0x20 \<and>
   decaf_register_opcode_range_callback
     \<lparr>handle = 1, enabled = 0, from_addr = 0, to_addr = 0, ocb_type = OCB_ALL, callback = 0\<rparr>
     7 9 0x20 0x10 (decaf_callback_init static_init :: 32 word decaf_state)
     = Some (decaf_callback_init static_init, 0)"
  using register_opcode_range_rejects [of "0x10" "0x20"
      "\<lparr>handle = 1, enabled = 0, from_addr = 0, to_addr = 0, ocb_type = OCB_ALL, callback = 0\<rparr>"
      7 9 "decaf_callback_init static_init :: 32 word decaf_state"]
  by (simp add: DECAF_NULL_HANDLE_def)


text \<open>
  C9. From any state, registering a first handler for the opcodes \<open>0x10 .. 0x1f\<close> and
  then a second one for \<open>0x18 .. 0x27\<close> leaves the slots \<open>0x10 .. 0x17\<close> with the first
  record and the slots \<open>0x18 .. 0x27\<close> with the second; unregistering the first then
  succeeds and empties every slot \<open>0x10 .. 0x1f\<close>, those the second had taken over
  included, while \<open>0x20 .. 0x27\<close> keep the second record.
\<close>

theorem opcode_range_overlap:
  fixes s :: "'a::len word decaf_state"
  assumes len: "16 \<le> LENGTH('a)"
    and h1: "handle blk1 \<noteq> 0" and h2: "handle blk2 \<noteq> 0"
    and ne: "handle blk1 \<noteq> handle blk2"
  shows "case decaf_register_opcode_range_callback blk1 f1 c1 0x10 0x1f s of
           None \<Rightarrow> False
         | Some (s1, r1) \<Rightarrow>
             r1 = handle blk1 \<and>
             (case decaf_register_opcode_range_callback blk2 f2 c2 0x18 0x27 s1 of
                None \<Rightarrow> False
              | Some (s2, r2) \<Rightarrow>
                  r2 = handle blk2 \<and>
                  (\<forall>i. 0x10 \<le> i \<and> i < 0x18 \<longrightarrow>
                     instructionCallbacks s2 i =
                       Some (blk1\<lparr>callback := f1, from_addr := 0x10, to_addr := 0x1f,
                                  enabled := c1\<rparr>)) \<and>
                  (\<forall>i. 0x18 \<le> i \<and> i < 0x28 \<longrightarrow>
                     instructionCallbacks s2 i =
                       Some (blk2\<lparr>callback := f2, from_addr := 0x18, to_addr := 0x27,
                                  enabled := c2\<rparr>)) \<and>
                  (case decaf_unregister_opcode_range_callback r1 s2 of
                     (s3, e) \<Rightarrow>
                       e = Ret_0 \<and>
                       (\<forall>i. 0x10 \<le> i \<and> i < 0x20 \<longrightarrow> instructionCallbacks s3 i = None) \<and>
                       (\<forall>i. 0x20 \<le> i \<and> i < 0x28 \<longrightarrow>
                          instructionCallbacks s3 i = instructionCallbacks s2 i)))"
proof -
  have u: "unat (0x10 :: 'a word) = 0x10" "unat (0x1f :: 'a word) = 0x1f"
    using unat_ucast_opcode [OF len, of "0x10"] unat_ucast_opcode [OF len, of "0x1f"]
    by simp_all
  have lt: "\<not> (0x1f :: 'a word) < 0x10"
    using u by (simp add: word_less_nat_alt)
  show ?thesis
    using h1 h2 ne u lt
    by (simp add: register_opcode_range_in_table decaf_unregister_opcode_range_callback_def
        find_handle_def QLIST_REMOVE_def set_slots_apply Let_def)
qed

theorem opcode_range_overlap_witness:
  "16 \<le> LENGTH(32) \<and>
   (case decaf_register_opcode_range_callback
           \<lparr>handle = 1, enabled = 0, from_addr = 0, to_addr = 0, ocb_type = OCB_ALL,
            callback = 0\<rparr> 11 21 0x10 0x1f
           (decaf_callback_init static_init :: 32 word decaf_state) of
      None \<Rightarrow> False
    | Some (s1, r1) \<Rightarrow>
        r1 = 1 \<and>
        (case decaf_register_opcode_range_callback
                \<lparr>handle = 2, enabled = 0, from_addr = 0, to_addr = 0, ocb_type = OCB_ALL,
                 callback = 0\<rparr> 12 22 0x18 0x27 s1 of
           None \<Rightarrow> False
         | Some (s2, r2) \<Rightarrow>
             r2 = 2 \<and>
             map_option callback (instructionCallbacks s2 0x17) = Some 11 \<and>
             map_option callback (instructionCallbacks s2 0x18) = Some 12 \<and>
             (case decaf_unregister_opcode_range_callback r1 s2 of
                (s3, e) \<Rightarrow>
                  e = Ret_0 \<and> instructionCallbacks s3 0x1f = None \<and>
                  map_option callback (instructionCallbacks s3 0x20) = Some 12)))"
  using opcode_range_overlap [where 'a = 32 and s = "decaf_callback_init static_init"
      and ?blk1.0 = "\<lparr>handle = 1, enabled = 0, from_addr = 0, to_addr = 0, ocb_type = OCB_ALL,
            callback = 0\<rparr>"
      and ?blk2.0 = "\<lparr>handle = 2, enabled = 0, from_addr = 0, to_addr = 0, ocb_type = OCB_ALL,
            callback = 0\<rparr>"
      and ?f1.0 = 11 and ?c1.0 = 21 and ?f2.0 = 12 and ?c2.0 = 22]
  by (simp add: register_opcode_range_in_table decaf_unregister_opcode_range_callback_def
      find_handle_def QLIST_REMOVE_def set_slots_apply Let_def word_less_nat_alt)

section \<open>Generic registration and cache invalidation\<close>

lemma register_callback_generic:
  assumes "ty \<noteq> DECAF_BLOCK_BEGIN_CB" and "ty \<noteq> DECAF_BLOCK_END_CB" and "handle blk \<noteq> 0"
  shows "decaf_register_callback tg blk ty f c s =
    (s\<lparr>callback_list_heads := (callback_list_heads s)
          (ty := blk\<lparr>callback := f, enabled := c\<rparr> # callback_list_heads s ty),
        flushes := flushes s @
          (if ty \<noteq> DECAF_TLB_EXEC_CB \<and> callback_list_heads s ty = []
           then [(ALL_CACHE, 0)] else [])\<rparr>, handle blk)"
  using assms
  by (simp add: decaf_register_callback_def Let_def
      QLIST_INSERT_HEAD_def register_decaf_flush_translation_cache_def)

lemma unregister_callback_generic_none:
  assumes "ty \<noteq> DECAF_BLOCK_BEGIN_CB" and "ty \<noteq> DECAF_BLOCK_END_CB"
    and "find_handle ty h s = None"
  shows "decaf_unregister_callback tg ty h s = Some (s, Ret_minus_1)"
  using assms by (simp add: decaf_unregister_callback_def)

lemma unregister_callback_generic_some:
  assumes "ty \<noteq> DECAF_BLOCK_BEGIN_CB" and "ty \<noteq> DECAF_BLOCK_END_CB"
    and "find_handle ty h s = Some cb_struct"
  shows "decaf_unregister_callback tg ty h s =
    Some (s\<lparr>callback_list_heads := (callback_list_heads s)
                (ty := remove1 cb_struct (callback_list_heads s ty)),
              flushes := flushes s @
                (if ty \<noteq> DECAF_TLB_EXEC_CB \<and> remove1 cb_struct (callback_list_heads s ty) = []
                 then [(ALL_CACHE, 0)] else [])\<rparr>, Ret_0)"
  using assms
  by (simp add: decaf_unregister_callback_def Let_def QLIST_REMOVE_def
      register_decaf_flush_translation_cache_def)

text \<open>
  C10. For an event kind other than block-begin and block-end, \<open>decaf_register_callback\<close>
  with a non-null allocation puts the new record at the head of that kind's list and
  issues one \<open>ALL_CACHE\<close> invalidation exactly when the kind is not tlb-exec and its list
  was empty before; \<open>decaf_unregister_callback\<close> returns \<open>-1\<close> and changes nothing when
  the handle is not in the list, and otherwise removes the record and issues one
  \<open>ALL_CACHE\<close> invalidation exactly when the kind is not tlb-exec and the list is empty
  afterwards. For tlb-exec neither call issues an invalidation.
\<close>

theorem generic_callback_invalidation:
  assumes "ty \<noteq> DECAF_BLOCK_BEGIN_CB" and "ty \<noteq> DECAF_BLOCK_END_CB"
  shows
    "(handle blk \<noteq> 0 \<longrightarrow>
       (case decaf_register_callback tg blk ty f c s of
          (s', r) \<Rightarrow>
            r = handle blk \<and>
            callback_list_heads s' ty
              = blk\<lparr>callback := f, enabled := c\<rparr> # callback_list_heads s ty \<and>
            flushes s' = flushes s @
              (if ty \<noteq> DECAF_TLB_EXEC_CB \<and> callback_list_heads s ty = []
               then [(ALL_CACHE, 0)] else []))) \<and>
     (case decaf_unregister_callback tg ty h s of
        None \<Rightarrow> False
      | Some (s', r) \<Rightarrow>
          (case find_handle ty h s of
             None \<Rightarrow> r = Ret_minus_1 \<and> s' = s
           | Some cb_struct \<Rightarrow>
               r = Ret_0 \<and>
               callback_list_heads s' ty = remove1 cb_struct (callback_list_heads s ty) \<and>
               flushes s' = flushes s @
                 (if ty \<noteq> DECAF_TLB_EXEC_CB \<and> callback_list_heads s' ty = []
                  then [(ALL_CACHE, 0)] else [])))"
proof (cases "find_handle ty h s")
  case None
  show ?thesis
    using assms None
    by (simp add: register_callback_generic unregister_callback_generic_none)
next
  case (Some cb_struct)
  show ?thesis
    using assms Some
    by (simp add: register_callback_generic unregister_callback_generic_some)
qed

theorem generic_callback_invalidation_witness:
  "DECAF_INSN_BEGIN_CB \<noteq> DECAF_BLOCK_BEGIN_CB \<and> DECAF_INSN_BEGIN_CB \<noteq> DECAF_BLOCK_END_CB \<and>
   (case decaf_register_callback \<lparr>TARGET_PAGE_MASK = 0xfffff000, INV_ADDR = - 1\<rparr>
           \<lparr>handle = 1, enabled = 0, from_addr = 0, to_addr = 0, ocb_type = OCB_ALL,
            callback = 0\<rparr> DECAF_INSN_BEGIN_CB 11 0
           (decaf_callback_init static_init :: 32 word decaf_state) of
      (s1, r1) \<Rightarrow>
        r1 = 1 \<and> flushes s1 = [(ALL_CACHE, 0)] \<and>
        (case decaf_unregister_callback \<lparr>TARGET_PAGE_MASK = 0xfffff000, INV_ADDR = - 1\<rparr>
                DECAF_INSN_BEGIN_CB 1 s1 of
           None \<Rightarrow> False
         | Some (s2, r2) \<Rightarrow>
             r2 = Ret_0 \<and> callback_list_heads s2 DECAF_INSN_BEGIN_CB = [] \<and>
             flushes s2 = [(ALL_CACHE, 0), (ALL_CACHE, 0)]))"
  using generic_callback_invalidation [where ty = DECAF_INSN_BEGIN_CB
      and tg = "\<lparr>TARGET_PAGE_MASK = 0xfffff000, INV_ADDR = - 1\<rparr>"
      and blk = "\<lparr>handle = 1, enabled = 0, from_addr = 0, to_addr = 0, ocb_type = OCB_ALL,
            callback = 0\<rparr>" and f = 11 and c = 0
      and s = "decaf_callback_init static_init :: 32 word decaf_state"]
  by (simp add: register_callback_generic unregister_callback_generic_some
      decaf_callback_init_def static_init_def find_handle_def)

section \<open>Block-begin and block-end applicability\<close>

lemma register_block_begin_all:
  assumes "handle blk \<noteq> 0"
  shows "decaf_register_optimized_block_begin_callback tg blk f c addr OCB_ALL s =
    (s\<lparr>bEnableAllBlockBeginCallbacks := 1,
        enableAllBlockBeginCallbacksCount := enableAllBlockBeginCallbacksCount s + 1,
        flushes := flushes s @
          (if enableAllBlockBeginCallbacksCount s = 0 then [(ALL_CACHE, 0)] else []),
        callback_list_heads := (callback_list_heads s)
          (DECAF_BLOCK_BEGIN_CB :=
             blk\<lparr>callback := f, enabled := c, from_addr := addr, to_addr := INV_ADDR tg,
                  ocb_type := OCB_ALL\<rparr> # callback_list_heads s DECAF_BLOCK_BEGIN_CB)\<rparr>,
     handle blk)"
  using assms
  by (simp add: decaf_register_optimized_block_begin_callback_def Let_def
      QLIST_INSERT_HEAD_def register_decaf_flush_translation_cache_def)

text \<open>
  C4. In the state left by \<open>decaf_callback_init\<close>, registering one block-begin callback
  of class \<open>OCB_ALL\<close> (with a non-null allocation) issues exactly one \<open>ALL_CACHE\<close>
  invalidation and makes \<open>decaf_is_block_begin_callback_needed\<close> true for every address;
  unregistering the handle returned succeeds, issues exactly one more \<open>ALL_CACHE\<close>
  invalidation and makes the query false for every address.
\<close>

theorem global_block_begin_scenario:
  assumes "handle blk \<noteq> 0"
  shows
    "case decaf_register_optimized_block_begin_callback tg blk f c addr OCB_ALL
            (decaf_callback_init s) of
       (s1, h) \<Rightarrow>
         h = handle blk \<and>
         flushes s1 = flushes s @ [(ALL_CACHE, 0)] \<and>
         (\<forall>a. decaf_is_block_begin_callback_needed tg a s1 = Some True) \<and>
         (case decaf_unregister_optimized_block_begin_callback h s1 of
            (s2, r) \<Rightarrow>
              r = Ret_0 \<and>
              flushes s2 = flushes s1 @ [(ALL_CACHE, 0)] \<and>
              (\<forall>a. decaf_is_block_begin_callback_needed tg a s2 = Some False))"
  using assms
  by (simp add: register_block_begin_all decaf_callback_init_def
      decaf_is_block_begin_callback_needed_def
      decaf_unregister_optimized_block_begin_callback_def find_handle_def Let_def
      QLIST_REMOVE_def register_decaf_flush_translation_cache_def
      counting_hashtable_new_def counting_hashtable_exist_def)

theorem global_block_begin_scenario_witness:
  "handle \<lparr>handle = 1, enabled = 0, from_addr = 0 :: 32 word, to_addr = 0,
           ocb_type = OCB_ALL, callback = 0\<rparr> \<noteq> 0 \<and>
   (case decaf_register_optimized_block_begin_callback
           \<lparr>TARGET_PAGE_MASK = 0xfffff000, INV_ADDR = - 1\<rparr>
           \<lparr>handle = 1, enabled = 0, from_addr = 0, to_addr = 0, ocb_type = OCB_ALL,
            callback = 0\<rparr> 11 0 (- 1) OCB_ALL
           (decaf_callback_init static_init :: 32 word decaf_state) of
      (s1, h) \<Rightarrow>
        h = 1 \<and> flushes s1 = [(ALL_CACHE, 0)] \<and>
        decaf_is_block_begin_callback_needed
          \<lparr>TARGET_PAGE_MASK = 0xfffff000, INV_ADDR = - 1\<rparr> 0x401000 s1 = Some True \<and>
        (case decaf_unregister_optimized_block_begin_callback h s1 of
           (s2, r) \<Rightarrow>
             r = Ret_0 \<and> flushes s2 = [(ALL_CACHE, 0), (ALL_CACHE, 0)] \<and>
             decaf_is_block_begin_callback_needed
               \<lparr>TARGET_PAGE_MASK = 0xfffff000, INV_ADDR = - 1\<rparr> 0x401000 s2 = Some False))"
  using global_block_begin_scenario [where s = "static_init :: 32 word decaf_state"
      and tg = "\<lparr>TARGET_PAGE_MASK = 0xfffff000, INV_ADDR = - 1\<rparr>"
      and blk = "\<lparr>handle = 1, enabled = 0, from_addr = 0, to_addr = 0, ocb_type = OCB_ALL,
            callback = 0\<rparr>" and f = 11 and c = 0 and addr = "- 1"]
  by (simp add: static_init_def split: prod.splits)

text \<open>
  C5. With the three block-end tables allocated, \<open>decaf_is_block_end_callback_needed\<close>
  answers true if the global block-end flag is set; otherwise true if the page of \<open>from\<close>
  has a non-zero count in the from-only table; otherwise false if \<open>to\<close> is \<open>INV_ADDR\<close>;
  otherwise true exactly when the page of \<open>to\<close> has a non-zero count in the to-only
  table or the pair of pages has a non-zero count in the page map.
\<close>

theorem block_end_needed_query:
  assumes "pOBEFromPageTable s = Some ft" and "pOBEToPageTable s = Some tt"
    and "pOBEPageMap s = Some m"
  shows "decaf_is_block_end_callback_needed tg frm to s =
    Some (if bEnableAllBlockEndCallbacks s \<noteq> 0 then True
          else if 0 < ft (frm AND TARGET_PAGE_MASK tg) then True
          else if to = INV_ADDR tg then False
          else 0 < tt (to AND TARGET_PAGE_MASK tg)
               \<or> 0 < m (frm AND TARGET_PAGE_MASK tg) (to AND TARGET_PAGE_MASK tg))"
  using assms
  by (simp add: decaf_is_block_end_callback_needed_def Let_def counting_hashtable_exist_def
      counting_hashmap_exist_def)

theorem block_end_needed_query_witness:
  "pOBEFromPageTable
     (fst (decaf_register_optimized_block_end_callback
             \<lparr>TARGET_PAGE_MASK = 0xfffff000, INV_ADDR = - 1\<rparr>
             \<lparr>handle = 1, enabled = 0, from_addr = 0, to_addr = 0, ocb_type = OCB_ALL,
              callback = 0\<rparr> 11 0 0x1234 (- 1)
             (decaf_callback_init static_init :: 32 word decaf_state)))
     = Some (counting_hashtable_new(0x1000 := 1)) \<and>
   pOBEToPageTable
     (fst (decaf_register_optimized_block_end_callback
             \<lparr>TARGET_PAGE_MASK = 0xfffff000, INV_ADDR = - 1\<rparr>
             \<lparr>handle = 1, enabled = 0, from_addr = 0, to_addr = 0, ocb_type = OCB_ALL,
              callback = 0\<rparr> 11 0 0x1234 (- 1)
             (decaf_callback_init static_init :: 32 word decaf_state)))
     = Some counting_hashtable_new \<and>
   pOBEPageMap
     (fst (decaf_register_optimized_block_end_callback
             \<lparr>TARGET_PAGE_MASK = 0xfffff000, INV_ADDR = - 1\<rparr>
             \<lparr>handle = 1, enabled = 0, from_addr = 0, to_addr = 0, ocb_type = OCB_ALL,
              callback = 0\<rparr> 11 0 0x1234 (- 1)
             (decaf_callback_init static_init :: 32 word decaf_state)))
     = Some counting_hashmap_new \<and>
   decaf_is_block_end_callback_needed \<lparr>TARGET_PAGE_MASK = 0xfffff000, INV_ADDR = - 1\<rparr>
     0x1abc 0x5000
     (fst (decaf_register_optimized_block_end_callback
             \<lparr>TARGET_PAGE_MASK = 0xfffff000, INV_ADDR = - 1\<rparr>
             \<lparr>handle = 1, enabled = 0, from_addr = 0, to_addr = 0, ocb_type = OCB_ALL,
              callback = 0\<rparr> 11 0 0x1234 (- 1)
             (decaf_callback_init static_init :: 32 word decaf_state)))
     = Some True \<and>
   decaf_is_block_end_callback_needed \<lparr>TARGET_PAGE_MASK = 0xfffff000, INV_ADDR = - 1\<rparr>
     0x2abc 0x5000
     (fst (decaf_register_optimized_block_end_callback
             \<lparr>TARGET_PAGE_MASK = 0xfffff000, INV_ADDR = - 1\<rparr>
             \<lparr>handle = 1, enabled = 0, from_addr = 0, to_addr = 0, ocb_type = OCB_ALL,
              callback = 0\<rparr> 11 0 0x1234 (- 1)
             (decaf_callback_init static_init :: 32 word decaf_state)))
     = Some False"
proof -
  let ?tg = "\<lparr>TARGET_PAGE_MASK = 0xfffff000, INV_ADDR = - 1\<rparr> :: 32 word target"
  let ?s = "fst (decaf_register_optimized_block_end_callback ?tg
             \<lparr>handle = 1, enabled = 0, from_addr = 0, to_addr = 0, ocb_type = OCB_ALL,
              callback = 0\<rparr> 11 0 0x1234 (- 1)
             (decaf_callback_init static_init :: 32 word decaf_state))"
  have f: "pOBEFromPageTable ?s = Some (counting_hashtable_new(0x1000 := 1))"
    and t: "pOBEToPageTable ?s = Some counting_hashtable_new"
    and m: "pOBEPageMap ?s = Some counting_hashmap_new"
    and b: "bEnableAllBlockEndCallbacks ?s = 0"
    by (simp_all add: decaf_register_optimized_block_end_callback_def
        register_block_end_tables_def decaf_callback_init_def static_init_def Let_def
        counting_hashtable_add_def counting_hashtable_new_def QLIST_INSERT_HEAD_def
        register_decaf_flush_translation_cache_def)
  show ?thesis
    using block_end_needed_query [OF f t m, of ?tg "0x1abc" "0x5000"]
      block_end_needed_query [OF f t m, of ?tg "0x2abc" "0x5000"] f t m b
    by (simp add: counting_hashtable_new_def counting_hashmap_new_def)
qed

section \<open>Counting-table transitions and cache invalidation\<close>

lemma zero_one_same [simp]: "\<not> zero_one a a"
  by (auto simp: zero_one_def)

lemma nonzero_change_same [simp]: "\<not> nonzero_change a a"
  by (simp add: nonzero_change_def)

lemma invalidation_policy_tables_same:
  assumes "pOBBPageTable s' = pOBBPageTable s" "pOBEFromPageTable s' = pOBEFromPageTable s"
    "pOBEToPageTable s' = pOBEToPageTable s" "pOBEPageMap s' = pOBEPageMap s"
  shows "invalidation_policy tg s s' k v"
  using assms by (simp add: invalidation_policy_def)

lemma word_and_idem: "(x AND m) AND m = x AND (m :: 'a::len word)"
  by (simp add: and.assoc)

lemma invalidation_policy_register_block_begin:
  "invalidation_policy tg s (fst (decaf_register_optimized_block_begin_callback tg blk f c addr ty s)) k v"
proof (cases "handle blk = 0 \<or> ty \<noteq> OCB_PAGE \<or> pOBBPageTable s = None")
  case True
  then show ?thesis
    by (intro invalidation_policy_tables_same)
      (auto simp: decaf_register_optimized_block_begin_callback_def Let_def
        QLIST_INSERT_HEAD_def register_decaf_flush_translation_cache_def split: OCB_t.splits)
next
  case False
  then obtain t where t: "pOBBPageTable s = Some t" and h: "handle blk \<noteq> 0" and ty: "ty = OCB_PAGE"
    by auto
  show ?thesis
    using t h ty
    by (auto simp: invalidation_policy_def decaf_register_optimized_block_begin_callback_def Let_def
        QLIST_INSERT_HEAD_def register_decaf_flush_translation_cache_def
        counting_hashtable_add_def table_count_def zero_one_def nonzero_change_def
        page_flush_def word_and_idem split: if_splits)
qed

lemma invalidation_policy_unregister_block_begin:
  assumes al: "\<And>x. 0 < table_count (pOBBPageTable s) x \<Longrightarrow> x AND TARGET_PAGE_MASK tg = x"
  shows "invalidation_policy tg s (fst (decaf_unregister_optimized_block_begin_callback h s)) k v"
proof (cases "find_handle DECAF_BLOCK_BEGIN_CB h s")
  case None
  then show ?thesis
    by (simp add: decaf_unregister_optimized_block_begin_callback_def invalidation_policy_tables_same)
next
  case (Some cb)
  show ?thesis
  proof (cases "ocb_type cb = OCB_PAGE \<and> pOBBPageTable s \<noteq> None")
    case False
    with Some show ?thesis
      by (intro invalidation_policy_tables_same)
        (auto simp: decaf_unregister_optimized_block_begin_callback_def Let_def
          QLIST_REMOVE_def register_decaf_flush_translation_cache_def split: OCB_t.splits)
  next
    case True
    then obtain t where t: "pOBBPageTable s = Some t" and ty: "ocb_type cb = OCB_PAGE"
      by auto
    have key: "t (from_addr cb) = 1 \<Longrightarrow> from_addr cb AND TARGET_PAGE_MASK tg = from_addr cb"
      using al [of "from_addr cb"] t by (simp add: table_count_def)
    from Some t ty key show ?thesis
      by (auto simp: invalidation_policy_def decaf_unregister_optimized_block_begin_callback_def Let_def
          QLIST_REMOVE_def register_decaf_flush_translation_cache_def
          counting_hashtable_remove_def table_count_def zero_one_def nonzero_change_def
          page_flush_def split: if_splits)
  qed
qed

lemma invalidation_policy_register_block_end_tables:
  "invalidation_policy tg s (fst (register_block_end_tables tg cb frm to s)) k v"
proof -
  consider (a) "to = INV_ADDR tg"
    | (b) "to \<noteq> INV_ADDR tg" "frm = INV_ADDR tg"
    | (c) "to \<noteq> INV_ADDR tg" "frm \<noteq> INV_ADDR tg"
    by blast
  then show ?thesis
  proof cases
    case a
    then show ?thesis
      by (cases "pOBEFromPageTable s")
        (auto simp: invalidation_policy_def register_block_end_tables_def Let_def
          QLIST_INSERT_HEAD_def register_decaf_flush_translation_cache_def
          counting_hashtable_add_def table_count_def zero_one_def nonzero_change_def
          page_flush_def word_and_idem split: if_splits)
  next
    case b
    then show ?thesis
      by (cases "pOBEToPageTable s")
        (auto simp: invalidation_policy_def register_block_end_tables_def Let_def
          QLIST_INSERT_HEAD_def register_decaf_flush_translation_cache_def
          counting_hashtable_add_def table_count_def zero_one_def nonzero_change_def
          page_flush_def split: if_splits)
  next
    case c
    then show ?thesis
      by (cases "pOBEPageMap s")
        (auto simp: invalidation_policy_def register_block_end_tables_def Let_def
          QLIST_INSERT_HEAD_def register_decaf_flush_translation_cache_def
          counting_hashmap_add_def counting_hashtable_add_def map_count_def zero_one_def
          nonzero_change_def page_flush_def word_and_idem split: if_splits)
  qed
qed

lemma invalidation_policy_register_block_end:
  "invalidation_policy tg s (fst (decaf_register_optimized_block_end_callback tg blk f c frm to s)) k v"
proof (cases "handle blk = 0 \<or> (frm = INV_ADDR tg \<and> to = INV_ADDR tg)")
  case True
  then show ?thesis
    by (intro invalidation_policy_tables_same)
      (auto simp: decaf_register_optimized_block_end_callback_def Let_def
        QLIST_INSERT_HEAD_def register_decaf_flush_translation_cache_def)
next
  case False
  then show ?thesis
    using invalidation_policy_register_block_end_tables
    by (auto simp: decaf_register_optimized_block_end_callback_def Let_def)
qed

lemma invalidation_policy_register_match_block_end:
  "invalidation_policy tg s (fst (decaf_register_match_block_end_callback tg blk f c frm to s)) k v"
proof (cases "handle blk = 0 \<or> (frm = INV_ADDR tg \<and> to = INV_ADDR tg)")
  case True
  then show ?thesis
    by (intro invalidation_policy_tables_same)
      (auto simp: decaf_register_match_block_end_callback_def Let_def)
next
  case False
  then show ?thesis
    using invalidation_policy_register_block_end_tables
    by (auto simp: decaf_register_match_block_end_callback_def Let_def)
qed

lemma invalidation_policy_unregister_block_end:
  assumes "decaf_unregister_optimized_block_end_callback tg h s = Some (s', r)"
  shows "invalidation_policy tg s s' k v"
proof (cases "find_handle DECAF_BLOCK_END_CB h s")
  case None
  with assms show ?thesis
    by (simp add: decaf_unregister_optimized_block_end_callback_def invalidation_policy_tables_same)
next
  case (Some cb)
  consider (all) "from_addr cb = INV_ADDR tg" "to_addr cb = INV_ADDR tg"
    | (a) "from_addr cb \<noteq> INV_ADDR tg" "to_addr cb = INV_ADDR tg"
    | (b) "to_addr cb \<noteq> INV_ADDR tg" "from_addr cb = INV_ADDR tg"
    | (c) "to_addr cb \<noteq> INV_ADDR tg" "from_addr cb \<noteq> INV_ADDR tg"
    by blast
  then show ?thesis
  proof cases
    case all
    with assms Some show ?thesis
      by (intro invalidation_policy_tables_same)
        (auto simp: decaf_unregister_optimized_block_end_callback_def Let_def
          QLIST_REMOVE_def register_decaf_flush_translation_cache_def split: if_splits)
  next
    case a
    with assms Some show ?thesis
      by (cases "pOBEFromPageTable s")
        (auto simp: invalidation_policy_def decaf_unregister_optimized_block_end_callback_def Let_def
          QLIST_REMOVE_def register_decaf_flush_translation_cache_def
          counting_hashtable_remove_def table_count_def zero_one_def nonzero_change_def
          page_flush_def word_and_idem split: if_splits)
  next
    case b
    with assms Some show ?thesis
      by (cases "pOBEToPageTable s")
        (auto simp: invalidation_policy_def decaf_unregister_optimized_block_end_callback_def Let_def
          QLIST_REMOVE_def register_decaf_flush_translation_cache_def
          counting_hashtable_remove_def table_count_def zero_one_def nonzero_change_def
          page_flush_def split: if_splits)
  next
    case c
    with assms Some show ?thesis
      by (cases "pOBEPageMap s")
        (auto simp: invalidation_policy_def decaf_unregister_optimized_block_end_callback_def Let_def
          QLIST_REMOVE_def register_decaf_flush_translation_cache_def
          counting_hashmap_remove_def counting_hashtable_remove_def map_count_def
          zero_one_def nonzero_change_def page_flush_def word_and_idem split: if_splits)
  qed
qed

lemma invalidation_policy_register_callback:
  "invalidation_policy tg s (fst (decaf_register_callback tg blk ty f c s)) k v"
proof -
  consider (bb) "ty = DECAF_BLOCK_BEGIN_CB" | (be) "ty = DECAF_BLOCK_END_CB"
    | (other) "ty \<noteq> DECAF_BLOCK_BEGIN_CB" "ty \<noteq> DECAF_BLOCK_END_CB"
    by blast
  then show ?thesis
  proof cases
    case bb
    then show ?thesis
      by (simp add: decaf_register_callback_def invalidation_policy_register_block_begin)
  next
    case be
    then show ?thesis
      by (simp add: decaf_register_callback_def invalidation_policy_register_block_end)
  next
    case other
    then show ?thesis
      by (intro invalidation_policy_tables_same)
        (auto simp: decaf_register_callback_def Let_def QLIST_INSERT_HEAD_def
          register_decaf_flush_translation_cache_def)
  qed
qed

lemma invalidation_policy_unregister_callback:
  assumes al: "\<And>x. 0 < table_count (pOBBPageTable s) x \<Longrightarrow> x AND TARGET_PAGE_MASK tg = x"
    and "decaf_unregister_callback tg ty h s = Some (s', r)"
  shows "invalidation_policy tg s s' k v"
proof -
  consider (bb) "ty = DECAF_BLOCK_BEGIN_CB" | (be) "ty = DECAF_BLOCK_END_CB"
    | (other) "ty \<noteq> DECAF_BLOCK_BEGIN_CB" "ty \<noteq> DECAF_BLOCK_END_CB"
    by blast
  then show ?thesis
  proof cases
    case bb
    with assms(2) have "s' = fst (decaf_unregister_optimized_block_begin_callback h s)"
      by (simp add: decaf_unregister_callback_def)
    then show ?thesis
      by (simp add: invalidation_policy_unregister_block_begin [OF al])
  next
    case be
    with assms(2) show ?thesis
      by (simp add: decaf_unregister_callback_def invalidation_policy_unregister_block_end)
  next
    case other
    with assms(2) show ?thesis
      by (intro invalidation_policy_tables_same)
        (auto simp: decaf_unregister_callback_def Let_def QLIST_REMOVE_def
          register_decaf_flush_translation_cache_def split: option.splits if_splits)
  qed
qed

lemma invalidation_policy_register_opcode_range:
  assumes "decaf_register_opcode_range_callback blk f c a b s = Some (s', h)"
  shows "invalidation_policy tg s s' k v"
  using assms
  by (intro invalidation_policy_tables_same)
    (auto simp: decaf_register_opcode_range_callback_def Let_def QLIST_INSERT_HEAD_def
      register_decaf_flush_translation_cache_def split: if_splits)

lemma invalidation_policy_unregister_opcode_range:
  "invalidation_policy tg s (fst (decaf_unregister_opcode_range_callback h s)) k v"
  by (intro invalidation_policy_tables_same)
    (auto simp: decaf_unregister_opcode_range_callback_def Let_def QLIST_REMOVE_def
      split: option.splits)

lemma invalidation_policy_api_step:
  assumes al: "\<And>x. 0 < table_count (pOBBPageTable s) x \<Longrightarrow> x AND TARGET_PAGE_MASK tg = x"
    and step: "api_step tg call s = Some s'"
  shows "invalidation_policy tg s s' k v"
proof (cases call)
  case (Register_opcode_range blk f c a b)
  with step show ?thesis
    by (auto simp: invalidation_policy_register_opcode_range)
next
  case (Unregister_opcode_range h)
  with step show ?thesis
    by (auto simp: invalidation_policy_unregister_opcode_range)
next
  case (Register_block_begin blk f c addr ty)
  with step show ?thesis
    by (auto simp: invalidation_policy_register_block_begin)
next
  case (Unregister_block_begin h)
  with step show ?thesis
    by (auto simp: invalidation_policy_unregister_block_begin [OF al])
next
  case (Register_block_end blk f c frm to)
  with step show ?thesis
    by (auto simp: invalidation_policy_register_block_end)
next
  case (Register_match_block_end blk f c frm to)
  with step show ?thesis
    by (auto simp: invalidation_policy_register_match_block_end)
next
  case (Unregister_block_end h)
  with step show ?thesis
    by (auto simp: invalidation_policy_unregister_block_end)
next
  case (Register_callback blk ty f c)
  with step show ?thesis
    by (auto simp: invalidation_policy_register_callback)
next
  case (Unregister_callback ty h)
  with step show ?thesis
    by (auto simp: invalidation_policy_unregister_callback [OF al])
qed

subsection \<open>The keys of the block-begin page table are pages\<close>

lemma block_begin_page_table_register:
  assumes "0 < table_count
                 (pOBBPageTable
                    (fst (decaf_register_optimized_block_begin_callback tg blk f c addr ty s))) x"
  shows "0 < table_count (pOBBPageTable s) x \<or> x AND TARGET_PAGE_MASK tg = x"
proof (cases "handle blk = 0 \<or> ty \<noteq> OCB_PAGE \<or> pOBBPageTable s = None")
  case True
  with assms show ?thesis
    by (auto simp: decaf_register_optimized_block_begin_callback_def Let_def
        QLIST_INSERT_HEAD_def register_decaf_flush_translation_cache_def
        split: OCB_t.splits if_splits)
next
  case False
  then obtain t where "pOBBPageTable s = Some t" and "handle blk \<noteq> 0" and "ty = OCB_PAGE"
    by auto
  with assms show ?thesis
    by (auto simp: decaf_register_optimized_block_begin_callback_def Let_def
        QLIST_INSERT_HEAD_def register_decaf_flush_translation_cache_def
        counting_hashtable_add_def table_count_def word_and_idem split: if_splits)
qed

lemma block_begin_page_table_unregister:
  assumes "0 < table_count
                 (pOBBPageTable (fst (decaf_unregister_optimized_block_begin_callback h s))) x"
  shows "0 < table_count (pOBBPageTable s) x"
  using assms
  by (auto simp: decaf_unregister_optimized_block_begin_callback_def Let_def
      QLIST_REMOVE_def register_decaf_flush_translation_cache_def
      counting_hashtable_remove_def table_count_def
      split: option.splits OCB_t.splits if_splits)

lemma block_begin_page_table_register_block_end_tables:
  "pOBBPageTable (fst (register_block_end_tables tg cb frm to s)) = pOBBPageTable s"
  by (auto simp: register_block_end_tables_def Let_def QLIST_INSERT_HEAD_def
      register_decaf_flush_translation_cache_def counting_hashtable_add_def
      counting_hashmap_add_def split: option.splits)

lemma block_begin_page_table_register_block_end:
  "pOBBPageTable (fst (decaf_register_optimized_block_end_callback tg blk f c frm to s))
     = pOBBPageTable s"
  by (auto simp: decaf_register_optimized_block_end_callback_def Let_def QLIST_INSERT_HEAD_def
      register_decaf_flush_translation_cache_def
      block_begin_page_table_register_block_end_tables)

lemma block_begin_page_table_register_match_block_end:
  "pOBBPageTable (fst (decaf_register_match_block_end_callback tg blk f c frm to s))
     = pOBBPageTable s"
  by (auto simp: decaf_register_match_block_end_callback_def Let_def
      block_begin_page_table_register_block_end_tables)

lemma block_begin_page_table_unregister_block_end:
  assumes "decaf_unregister_optimized_block_end_callback tg h s = Some (s', r)"
  shows "pOBBPageTable s' = pOBBPageTable s"
  using assms
  by (auto simp: decaf_unregister_optimized_block_end_callback_def Let_def QLIST_REMOVE_def
      register_decaf_flush_translation_cache_def counting_hashtable_remove_def
      counting_hashmap_remove_def split: option.splits if_splits)

lemma block_begin_page_table_step:
  assumes step: "api_step tg call s = Some s'"
    and pos: "0 < table_count (pOBBPageTable s') x"
  shows "0 < table_count (pOBBPageTable s) x \<or> x AND TARGET_PAGE_MASK tg = x"
proof (cases call)
  case (Register_opcode_range blk f c a b)
  with step pos show ?thesis
    by (auto simp: decaf_register_opcode_range_callback_def Let_def QLIST_INSERT_HEAD_def
        register_decaf_flush_translation_cache_def split: if_splits)
next
  case (Unregister_opcode_range h)
  with step pos show ?thesis
    by (auto simp: decaf_unregister_opcode_range_callback_def Let_def QLIST_REMOVE_def
        split: option.splits if_splits)
next
  case (Register_block_begin blk f c addr ty)
  with step have "s' = fst (decaf_register_optimized_block_begin_callback tg blk f c addr ty s)"
    by simp
  with pos show ?thesis
    using block_begin_page_table_register [of tg blk f c addr ty s x] by simp
next
  case (Unregister_block_begin h)
  with step have "s' = fst (decaf_unregister_optimized_block_begin_callback h s)"
    by simp
  with pos show ?thesis
    using block_begin_page_table_unregister [of h s x] by simp
next
  case (Register_block_end blk f c frm to)
  with step pos show ?thesis
    by (auto simp: block_begin_page_table_register_block_end)
next
  case (Register_match_block_end blk f c frm to)
  with step pos show ?thesis
    by (auto simp: block_begin_page_table_register_match_block_end)
next
  case (Unregister_block_end h)
  with step pos show ?thesis
    by (auto simp: block_begin_page_table_unregister_block_end)
next
  case (Register_callback blk ty f c)
  consider (bb) "ty = DECAF_BLOCK_BEGIN_CB" | (be) "ty = DECAF_BLOCK_END_CB"
    | (other) "ty \<noteq> DECAF_BLOCK_BEGIN_CB" "ty \<noteq> DECAF_BLOCK_END_CB"
    by blast
  then show ?thesis
  proof cases
    case bb
    with Register_callback step
    have "s' = fst (decaf_register_optimized_block_begin_callback tg blk f c (INV_ADDR tg)
                      OCB_ALL s)"
      by (simp add: decaf_register_callback_def)
    with pos show ?thesis
      using block_begin_page_table_register [of tg blk f c "INV_ADDR tg" OCB_ALL s x] by simp
  next
    case be
    with Register_callback step pos show ?thesis
      by (auto simp: decaf_register_callback_def block_begin_page_table_register_block_end)
  next
    case other
    with Register_callback step pos show ?thesis
      by (auto simp: decaf_register_callback_def Let_def QLIST_INSERT_HEAD_def
          register_decaf_flush_translation_cache_def split: if_splits)
  qed
next
  case (Unregister_callback ty h)
  consider (bb) "ty = DECAF_BLOCK_BEGIN_CB" | (be) "ty = DECAF_BLOCK_END_CB"
    | (other) "ty \<noteq> DECAF_BLOCK_BEGIN_CB" "ty \<noteq> DECAF_BLOCK_END_CB"
    by blast
  then show ?thesis
  proof cases
    case bb
    with Unregister_callback step
    have "s' = fst (decaf_unregister_optimized_block_begin_callback h s)"
      by (simp add: decaf_unregister_callback_def)
    with pos show ?thesis
      using block_begin_page_table_unregister [of h s x] by simp
  next
    case be
    with Unregister_callback step pos show ?thesis
      by (auto simp: decaf_unregister_callback_def
          block_begin_page_table_unregister_block_end)
  next
    case other
    with Unregister_callback step pos show ?thesis
      by (auto simp: decaf_unregister_callback_def Let_def QLIST_REMOVE_def
          register_decaf_flush_translation_cache_def split: option.splits if_splits)
  qed
qed

lemma block_begin_page_table_run:
  assumes "api_run tg calls s = Some s'"
    and "\<And>x. 0 < table_count (pOBBPageTable s) x \<Longrightarrow> x AND TARGET_PAGE_MASK tg = x"
    and "0 < table_count (pOBBPageTable s') x"
  shows "x AND TARGET_PAGE_MASK tg = x"
  using assms
proof (induction calls arbitrary: s)
  case Nil
  then show ?case by simp
next
  case (Cons call calls)
  from Cons.prems(1) obtain s1 where s1: "api_step tg call s = Some s1"
    and rest: "api_run tg calls s1 = Some s'"
    by (auto split: option.splits)
  have "\<And>y. 0 < table_count (pOBBPageTable s1) y \<Longrightarrow> y AND TARGET_PAGE_MASK tg = y"
    using block_begin_page_table_step [OF s1] Cons.prems(2) by blast
  with Cons.IH [OF rest] Cons.prems(3) show ?case
    by blast
qed

lemma block_begin_page_table_init:
  "table_count (pOBBPageTable (decaf_callback_init s)) x = 0"
  by (simp add: decaf_callback_init_def table_count_def counting_hashtable_new_def)

text \<open>
  C6. Take any state reached from \<open>decaf_callback_init\<close> by registration and
  unregistration calls of the file, and any further such call. If the call moves the count
  of a key \<open>k\<close> between \<open>0\<close> and \<open>1\<close> in the block-begin page table, in the from-only
  block-end table or (for a pair \<open>k\<close>, \<open>v\<close>) in the block-end page map, it issues exactly
  one invalidation, of scope \<open>PAGE_LEVEL\<close>, for the page \<open>k\<close>. If it moves a count between
  \<open>0\<close> and \<open>1\<close> in the to-only block-end table, it issues exactly one invalidation, of
  scope \<open>ALL_CACHE\<close>. If it moves a count of any of the four tables from one non-zero value
  to another, it issues none.
\<close>

theorem counting_transition_invalidation:
  assumes run: "api_run tg calls (decaf_callback_init s0) = Some s"
    and step: "api_step tg call s = Some s'"
  shows
    "(zero_one (table_count (pOBBPageTable s) k) (table_count (pOBBPageTable s') k)
        \<longrightarrow> page_flush tg s s' k) \<and>
     (zero_one (table_count (pOBEFromPageTable s) k) (table_count (pOBEFromPageTable s') k)
        \<longrightarrow> page_flush tg s s' k) \<and>
     (zero_one (map_count (pOBEPageMap s) k v) (map_count (pOBEPageMap s') k v)
        \<longrightarrow> page_flush tg s s' k) \<and>
     (zero_one (table_count (pOBEToPageTable s) k) (table_count (pOBEToPageTable s') k)
        \<longrightarrow> flushes s' = flushes s @ [(ALL_CACHE, 0)]) \<and>
     (nonzero_change (table_count (pOBBPageTable s) k) (table_count (pOBBPageTable s') k)
        \<or> nonzero_change (table_count (pOBEFromPageTable s) k)
             (table_count (pOBEFromPageTable s') k)
        \<or> nonzero_change (map_count (pOBEPageMap s) k v) (map_count (pOBEPageMap s') k v)
        \<or> nonzero_change (table_count (pOBEToPageTable s) k)
             (table_count (pOBEToPageTable s') k)
        \<longrightarrow> flushes s' = flushes s)"
proof -
  have al: "\<And>x. 0 < table_count (pOBBPageTable s) x \<Longrightarrow> x AND TARGET_PAGE_MASK tg = x"
    using block_begin_page_table_run [OF run] by (simp add: block_begin_page_table_init)
  show ?thesis
    using invalidation_policy_api_step [OF al step, of k v]
    unfolding invalidation_policy_def by blast
qed

theorem counting_transition_invalidation_witness:
  "(case api_run \<lparr>TARGET_PAGE_MASK = 0xfffff000, INV_ADDR = - 1\<rparr>
           [Register_block_begin
              \<lparr>handle = 2, enabled = 0, from_addr = 0, to_addr = 0, ocb_type = OCB_ALL,
               callback = 0\<rparr> 12 0 0x5678 OCB_PAGE]
           (decaf_callback_init static_init :: 32 word decaf_state) of
      None \<Rightarrow> False
    | Some s \<Rightarrow>
       (case api_step \<lparr>TARGET_PAGE_MASK = 0xfffff000, INV_ADDR = - 1\<rparr>
               (Register_block_end
                  \<lparr>handle = 1, enabled = 0, from_addr = 0, to_addr = 0, ocb_type = OCB_ALL,
                   callback = 0\<rparr> 11 0 0x1234 (- 1)) s of
          None \<Rightarrow> False
        | Some s' \<Rightarrow>
            zero_one (table_count (pOBEFromPageTable s) 0x1000)
              (table_count (pOBEFromPageTable s') 0x1000) \<and>
            page_flush \<lparr>TARGET_PAGE_MASK = 0xfffff000, INV_ADDR = - 1\<rparr> s s' 0x1000 \<and>
            flushes s = [(PAGE_LEVEL, 0x5000)] \<and>
            flushes s' = [(PAGE_LEVEL, 0x5000), (PAGE_LEVEL, 0x1234)]))"
proof -
  let ?tg = "\<lparr>TARGET_PAGE_MASK = 0xfffff000, INV_ADDR = - 1\<rparr> :: 32 word target"
  let ?s0 = "static_init :: 32 word decaf_state"
  let ?calls = "[Register_block_begin
              \<lparr>handle = 2, enabled = 0, from_addr = 0, to_addr = 0, ocb_type = OCB_ALL,
               callback = 0\<rparr> 12 0 (0x5678 :: 32 word) OCB_PAGE]"
  let ?call = "Register_block_end
              \<lparr>handle = 1, enabled = 0, from_addr = 0, to_addr = 0, ocb_type = OCB_ALL,
               callback = 0\<rparr> 11 0 (0x1234 :: 32 word) (- 1)"
  obtain s where run: "api_run ?tg ?calls (decaf_callback_init ?s0) = Some s"
    by simp
  obtain s' where step: "api_step ?tg ?call s = Some s'"
    by simp
  have s: "pOBEFromPageTable s = Some counting_hashtable_new"
    and fs: "flushes s = [(PAGE_LEVEL, 0x5000)]"
    using run
    by (auto simp: decaf_register_optimized_block_begin_callback_def
        decaf_callback_init_def static_init_def Let_def
        counting_hashtable_add_def counting_hashtable_new_def QLIST_INSERT_HEAD_def
        register_decaf_flush_translation_cache_def)
  have tab: "pOBEFromPageTable s' = Some (counting_hashtable_new(0x1000 := 1))"
    and fl: "flushes s' = [(PAGE_LEVEL, 0x5000), (PAGE_LEVEL, 0x1234)]"
    using step s fs
    by (auto simp: decaf_register_optimized_block_end_callback_def
        register_block_end_tables_def Let_def
        counting_hashtable_add_def counting_hashtable_new_def QLIST_INSERT_HEAD_def
        register_decaf_flush_translation_cache_def)
  have z: "zero_one (table_count (pOBEFromPageTable s) 0x1000)
             (table_count (pOBEFromPageTable s') 0x1000)"
    by (simp add: s tab zero_one_def table_count_def counting_hashtable_new_def)
  have "page_flush ?tg s s' 0x1000"
    using counting_transition_invalidation [OF run step, of "0x1000"] z by blast
  then show ?thesis
    using run step z fs fl by simp
qed

section \<open>Page-class block-begin callbacks\<close>

lemma register_block_begin_page:
  assumes "handle blk \<noteq> 0" and "pOBBPageTable s = Some t"
  shows "decaf_register_optimized_block_begin_callback tg blk f c addr OCB_PAGE s =
    (s\<lparr>pOBBPageTable := Some (t(addr AND TARGET_PAGE_MASK tg
                                  := t (addr AND TARGET_PAGE_MASK tg) + 1)),
        flushes := flushes s @
          (if t (addr AND TARGET_PAGE_MASK tg) = 0
           then [(PAGE_LEVEL, addr AND TARGET_PAGE_MASK tg)] else []),
        callback_list_heads := (callback_list_heads s)
          (DECAF_BLOCK_BEGIN_CB :=
             blk\<lparr>callback := f, enabled := c, from_addr := addr, to_addr := INV_ADDR tg,
                  ocb_type := OCB_PAGE\<rparr> # callback_list_heads s DECAF_BLOCK_BEGIN_CB)\<rparr>,
     handle blk)"
  using assms
  by (simp add: decaf_register_optimized_block_begin_callback_def Let_def
      counting_hashtable_add_def QLIST_INSERT_HEAD_def
      register_decaf_flush_translation_cache_def)

lemma unregister_block_begin_page:
  assumes "find_handle DECAF_BLOCK_BEGIN_CB h s = Some cb" and "ocb_type cb = OCB_PAGE"
    and "pOBBPageTable s = Some t"
  shows "decaf_unregister_optimized_block_begin_callback h s =
    (s\<lparr>pOBBPageTable := Some (t(from_addr cb := t (from_addr cb) - 1)),
        flushes := flushes s @
          (if t (from_addr cb) \<le> 1 then [(PAGE_LEVEL, from_addr cb)] else []),
        callback_list_heads := (callback_list_heads s)
          (DECAF_BLOCK_BEGIN_CB := remove1 cb (callback_list_heads s DECAF_BLOCK_BEGIN_CB))\<rparr>,
     Ret_0)"
  using assms
  by (auto simp: decaf_unregister_optimized_block_begin_callback_def Let_def
      counting_hashtable_remove_def QLIST_REMOVE_def
      register_decaf_flush_translation_cache_def)

text \<open>
  Two \<open>OCB_PAGE\<close> registrations in one page, the first at a page-aligned address: the
  second registration and the unregistration of the first issue no invalidation, and the
  query stays true for the whole page.
\<close>

lemma page_block_begin_counting_aligned:
  assumes "handle blk1 \<noteq> 0" and "handle blk2 \<noteq> 0" and "handle blk1 \<noteq> handle blk2"
    and "pOBBPageTable s = Some t"
    and "a1 AND TARGET_PAGE_MASK tg = a1" and "a2 AND TARGET_PAGE_MASK tg = a1"
  shows
    "case decaf_register_optimized_block_begin_callback tg blk1 f1 c1 a1 OCB_PAGE s of
       (s1, h1) \<Rightarrow>
     case decaf_register_optimized_block_begin_callback tg blk2 f2 c2 a2 OCB_PAGE s1 of
       (s2, h2) \<Rightarrow>
     case decaf_unregister_optimized_block_begin_callback h1 s2 of
       (s3, r) \<Rightarrow>
         flushes s1 = flushes s @ (if t a1 = 0 then [(PAGE_LEVEL, a1)] else []) \<and>
         flushes s2 = flushes s1 \<and> r = Ret_0 \<and> flushes s3 = flushes s2 \<and>
         (\<forall>x. x AND TARGET_PAGE_MASK tg = a1
              \<longrightarrow> decaf_is_block_begin_callback_needed tg x s3 = Some True)"
  using assms
  by (simp add: register_block_begin_page
      decaf_unregister_optimized_block_begin_callback_def Let_def
      counting_hashtable_remove_def QLIST_REMOVE_def
      register_decaf_flush_translation_cache_def find_handle_def
      decaf_is_block_begin_callback_needed_def counting_hashtable_exist_def)

text \<open>
  C7. The claim is that of two \<open>OCB_PAGE\<close> block-begin registrations on one page only
  the first registration and the last unregistration invalidate. Registration counts the
  masked address but stores the address as given, and unregistration hands the stored
  address to \<open>counting_hashtable_remove\<close> unmasked. With page mask \<open>0xfffff000\<close> and two
  registrations at \<open>0x1234\<close>, the first unregistration therefore removes the absent key
  \<open>0x1234\<close>, gets count \<open>0\<close> back and issues a \<open>PAGE_LEVEL\<close> invalidation; the count
  of page \<open>0x1000\<close> stays \<open>2\<close>, also after the second unregistration, when no callback
  is left and the query still answers true.
\<close>

theorem page_block_begin_unaligned_unregister:
  "(case decaf_register_optimized_block_begin_callback
           \<lparr>TARGET_PAGE_MASK = 0xfffff000, INV_ADDR = - 1\<rparr>
           \<lparr>handle = 1, enabled = 0, from_addr = 0, to_addr = 0, ocb_type = OCB_ALL,
            callback = 0\<rparr> 11 0 0x1234 OCB_PAGE
           (decaf_callback_init static_init :: 32 word decaf_state) of
      (s1, h1) \<Rightarrow>
   case decaf_register_optimized_block_begin_callback
           \<lparr>TARGET_PAGE_MASK = 0xfffff000, INV_ADDR = - 1\<rparr>
           \<lparr>handle = 2, enabled = 0, from_addr = 0, to_addr = 0, ocb_type = OCB_ALL,
            callback = 0\<rparr> 12 0 0x1234 OCB_PAGE s1 of
      (s2, h2) \<Rightarrow>
   case decaf_unregister_optimized_block_begin_callback h1 s2 of
      (s3, r3) \<Rightarrow>
   case decaf_unregister_optimized_block_begin_callback h2 s3 of
      (s4, r4) \<Rightarrow>
        h1 = 1 \<and> h2 = 2 \<and>
        flushes s1 = [(PAGE_LEVEL, 0x1000)] \<and>
        flushes s2 = [(PAGE_LEVEL, 0x1000)] \<and>
        r3 = Ret_0 \<and>
        flushes s3 = [(PAGE_LEVEL, 0x1000), (PAGE_LEVEL, 0x1234)] \<and>
        table_count (pOBBPageTable s3) 0x1000 = 2 \<and>
        r4 = Ret_0 \<and>
        flushes s4 = [(PAGE_LEVEL, 0x1000), (PAGE_LEVEL, 0x1234), (PAGE_LEVEL, 0x1234)] \<and>
        callback_list_heads s4 DECAF_BLOCK_BEGIN_CB = [] \<and>
        table_count (pOBBPageTable s4) 0x1000 = 2 \<and>
        decaf_is_block_begin_callback_needed
          \<lparr>TARGET_PAGE_MASK = 0xfffff000, INV_ADDR = - 1\<rparr> 0x1000 s4 = Some True)"
  by (simp add: register_block_begin_page
      decaf_unregister_optimized_block_begin_callback_def Let_def
      counting_hashtable_remove_def QLIST_REMOVE_def
      register_decaf_flush_translation_cache_def
      decaf_callback_init_def static_init_def
      counting_hashtable_new_def find_handle_def table_count_def
      decaf_is_block_begin_callback_needed_def counting_hashtable_exist_def)


section \<open>Block-end dispatch\<close>

text \<open>
  What the loop body decides for one record: a record whose \<open>to\<close> is \<open>INV_ADDR\<close> is
  called whenever it is enabled, whatever its \<open>from\<close>; a record with \<open>from\<close> wild and
  \<open>to\<close> given is called exactly when the page of \<open>to\<close> is the page of the next
  address; a record with both given is called exactly when both pages match.
\<close>

lemma block_end_calls_matrix:
  "block_end_calls tg mem cur_pc next_pc cb =
     (cb_enabled mem cb \<and>
      (to_addr cb = INV_ADDR tg \<or>
       to_addr cb AND TARGET_PAGE_MASK tg = next_pc AND TARGET_PAGE_MASK tg \<and>
       (from_addr cb = INV_ADDR tg \<or>
        from_addr cb AND TARGET_PAGE_MASK tg = cur_pc AND TARGET_PAGE_MASK tg)))"
  by (simp add: block_end_calls_def)

lemma block_end_calls_to_only:
  assumes "from_addr cb = INV_ADDR tg" and "to_addr cb \<noteq> INV_ADDR tg"
  shows "block_end_calls tg mem cur_pc next_pc cb =
     (cb_enabled mem cb \<and>
      to_addr cb AND TARGET_PAGE_MASK tg = next_pc AND TARGET_PAGE_MASK tg)"
  using assms by (simp add: block_end_calls_def)

lemma block_end_calls_pair:
  assumes "from_addr cb \<noteq> INV_ADDR tg" and "to_addr cb \<noteq> INV_ADDR tg"
  shows "block_end_calls tg mem cur_pc next_pc cb =
     (cb_enabled mem cb \<and>
      to_addr cb AND TARGET_PAGE_MASK tg = next_pc AND TARGET_PAGE_MASK tg \<and>
      from_addr cb AND TARGET_PAGE_MASK tg = cur_pc AND TARGET_PAGE_MASK tg)"
  using assms by (simp add: block_end_calls_def)

lemma block_end_calls_from_only:
  assumes "to_addr cb = INV_ADDR tg"
  shows "block_end_calls tg mem cur_pc next_pc cb = cb_enabled mem cb"
  using assms by (simp add: block_end_calls_def)

text \<open>
  C1. The claim is that a record registered with \<open>from = A\<close> and \<open>to\<close> wild is called
  exactly for the transitions that leave the page of \<open>A\<close>. The dispatch loop tests
  \<open>to == INV_ADDR\<close> first and calls the handler there without looking at \<open>from\<close>. With
  page mask \<open>0xfffff000\<close>, a record registered with \<open>from = 0x1000\<close> and \<open>to\<close> wild
  is called for the transition from \<open>0x4000\<close> to \<open>0x2000\<close>, which does not leave page
  \<open>0x1000\<close>.
\<close>

theorem block_end_from_only_fires_elsewhere:
  "(case decaf_register_optimized_block_end_callback
           \<lparr>TARGET_PAGE_MASK = 0xfffff000, INV_ADDR = - 1\<rparr>
           \<lparr>handle = 1, enabled = 0, from_addr = 0, to_addr = 0, ocb_type = OCB_ALL,
            callback = 0\<rparr> 11 0 0x1000 (- 1)
           (decaf_callback_init static_init :: 32 word decaf_state) of
      (s1, h1) \<Rightarrow>
        h1 = 1 \<and>
        helper_decaf_invoke_block_end_callback
          \<lparr>TARGET_PAGE_MASK = 0xfffff000, INV_ADDR = - 1\<rparr> (\<lambda>a. 0) (Some 0x2000) 0x4000 s1
        = [\<lparr>handle = 1, enabled = 0, from_addr = 0x1000, to_addr = - 1, ocb_type = OCB_ALL,
            callback = 11\<rparr>])"
  by (simp add: decaf_register_optimized_block_end_callback_def register_block_end_tables_def
      decaf_callback_init_def static_init_def Let_def counting_hashtable_add_def
      counting_hashtable_new_def QLIST_INSERT_HEAD_def
      register_decaf_flush_translation_cache_def
      helper_decaf_invoke_block_end_callback_def block_end_calls_def cb_enabled_def)

section \<open>Reserved block-begin classes\<close>

text \<open>
  Registration of a record of class \<open>OCB_CONST_NOT\<close> or \<open>OCB_PAGE_NOT\<close> only inserts
  the record: no table, counter, flag or query changes and nothing is invalidated. The
  dispatch loop calls every enabled record whose class is not \<open>OCB_PAGE\<close>.
\<close>

lemma register_block_begin_reserved:
  assumes "handle blk \<noteq> 0" and "ty = OCB_CONST_NOT \<or> ty = OCB_PAGE_NOT"
  shows "decaf_register_optimized_block_begin_callback tg blk f c addr ty s =
    (s\<lparr>callback_list_heads := (callback_list_heads s)
          (DECAF_BLOCK_BEGIN_CB :=
             blk\<lparr>callback := f, enabled := c, from_addr := addr, to_addr := INV_ADDR tg,
                  ocb_type := ty\<rparr> # callback_list_heads s DECAF_BLOCK_BEGIN_CB)\<rparr>,
     handle blk)"
  using assms
  by (auto simp: decaf_register_optimized_block_begin_callback_def Let_def
      QLIST_INSERT_HEAD_def)

lemma block_begin_needed_register_reserved:
  assumes "ty = OCB_CONST_NOT \<or> ty = OCB_PAGE_NOT"
  shows "decaf_is_block_begin_callback_needed tg pc
           (fst (decaf_register_optimized_block_begin_callback tg blk f c addr ty s))
         = decaf_is_block_begin_callback_needed tg pc s"
proof (cases "handle blk = 0")
  case True
  then show ?thesis
    by (simp add: decaf_register_optimized_block_begin_callback_def)
next
  case False
  then show ?thesis
    using assms
    by (simp add: register_block_begin_reserved decaf_is_block_begin_callback_needed_def
        split: option.splits)
qed

lemma block_begin_calls_not_page:
  assumes "ocb_type cb \<noteq> OCB_PAGE"
  shows "block_begin_calls tg mem pc cb = cb_enabled mem cb"
  using assms by (simp add: block_begin_calls_def split: OCB_t.splits)

text \<open>
  C2. The claim is that registering and unregistering a record of a reserved class leaves
  the filter state and the queries alone and that dispatch does not treat it as a global
  record. The switch of the unregistration function has no case for the two reserved
  classes, so they take the \<open>default\<close> label shared with \<open>OCB_ALL\<close>; the switch of the
  dispatch loop likewise. After an \<open>OCB_ALL\<close> registration and an \<open>OCB_CONST_NOT\<close>
  registration at \<open>0x5000\<close>, dispatch for a block at \<open>0x7000\<close> calls both records; and
  unregistering the \<open>OCB_CONST_NOT\<close> record takes the global count from \<open>1\<close> to \<open>0\<close>,
  clears the global flag, flushes the whole cache and turns the query false for \<open>0x7000\<close>
  while the \<open>OCB_ALL\<close> record is still registered.
\<close>

theorem reserved_class_unregister_clears_global:
  "(case decaf_register_optimized_block_begin_callback
           \<lparr>TARGET_PAGE_MASK = 0xfffff000, INV_ADDR = - 1\<rparr>
           \<lparr>handle = 1, enabled = 0, from_addr = 0, to_addr = 0, ocb_type = OCB_ALL,
            callback = 0\<rparr> 11 0 (- 1) OCB_ALL
           (decaf_callback_init static_init :: 32 word decaf_state) of
      (s1, h1) \<Rightarrow>
   case decaf_register_optimized_block_begin_callback
           \<lparr>TARGET_PAGE_MASK = 0xfffff000, INV_ADDR = - 1\<rparr>
           \<lparr>handle = 2, enabled = 0, from_addr = 0, to_addr = 0, ocb_type = OCB_ALL,
            callback = 0\<rparr> 12 0 0x5000 OCB_CONST_NOT s1 of
      (s2, h2) \<Rightarrow>
   case decaf_unregister_optimized_block_begin_callback h2 s2 of
      (s3, r3) \<Rightarrow>
        h1 = 1 \<and> h2 = 2 \<and> r3 = Ret_0 \<and>
        flushes s2 = [(ALL_CACHE, 0)] \<and>
        enableAllBlockBeginCallbacksCount s2 = 1 \<and>
        decaf_is_block_begin_callback_needed
          \<lparr>TARGET_PAGE_MASK = 0xfffff000, INV_ADDR = - 1\<rparr> 0x7000 s2 = Some True \<and>
        helper_decaf_invoke_block_begin_callback
          \<lparr>TARGET_PAGE_MASK = 0xfffff000, INV_ADDR = - 1\<rparr> (\<lambda>a. 0) 1 (Some 0x7000) s2
        = [\<lparr>handle = 2, enabled = 0, from_addr = 0x5000, to_addr = - 1,
            ocb_type = OCB_CONST_NOT, callback = 12\<rparr>,
           \<lparr>handle = 1, enabled = 0, from_addr = - 1, to_addr = - 1, ocb_type = OCB_ALL,
            callback = 11\<rparr>] \<and>
        flushes s3 = [(ALL_CACHE, 0), (ALL_CACHE, 0)] \<and>
        enableAllBlockBeginCallbacksCount s3 = 0 \<and>
        bEnableAllBlockBeginCallbacks s3 = 0 \<and>
        map handle (callback_list_heads s3 DECAF_BLOCK_BEGIN_CB) = [1] \<and>
        decaf_is_block_begin_callback_needed
          \<lparr>TARGET_PAGE_MASK = 0xfffff000, INV_ADDR = - 1\<rparr> 0x7000 s3 = Some False)"
  by (simp add: decaf_register_optimized_block_begin_callback_def
      decaf_unregister_optimized_block_begin_callback_def Let_def
      QLIST_INSERT_HEAD_def QLIST_REMOVE_def register_decaf_flush_translation_cache_def
      decaf_callback_init_def static_init_def counting_hashtable_new_def find_handle_def
      decaf_is_block_begin_callback_needed_def counting_hashtable_exist_def
      helper_decaf_invoke_block_begin_callback_def block_begin_calls_def cb_enabled_def)

section \<open>Opcode-range dispatch\<close>

text \<open>
  The transition is put in exactly one of the four classes, by comparing both addresses
  with \<open>kernel_base\<close>. The early return, however, is taken only when the condition word
  is \<open>0\<close> and the class value is odd: a condition that is neither \<open>0\<close> nor \<open>DECAF_ALL\<close>
  never stops the call.
\<close>

lemma transition_class_cases:
  "transition_class oc eip next_eip =
     (if unat eip \<le> kernel_base
      then (if unat next_eip \<le> kernel_base then DECAF_USER_TO_USER_ONLY oc
            else DECAF_USER_TO_KERNEL_ONLY oc)
      else (if unat next_eip \<le> kernel_base then DECAF_KERNEL_TO_USER_ONLY oc
            else DECAF_KERNEL_TO_KERNEL_ONLY oc))"
  by (simp add: transition_class_def Let_def not_less)

lemma opcode_range_nonzero_condition:
  assumes "unat opc \<le> 0x1ff" and "instructionCallbacks s (unat opc) = Some cb"
    and "cs \<noteq> 0" and "enabled cb \<noteq> 0" and "mem (enabled cb) \<noteq> 0"
  shows "helper_decaf_invoke_opcode_range_callback oc mem cs eip next_eip opc s = Some [cb]"
  using assms
  by (simp add: helper_decaf_invoke_opcode_range_callback_def Let_def not_less [symmetric])

lemma opcode_range_zero_condition:
  assumes "unat opc \<le> 0x1ff" and "instructionCallbacks s (unat opc) = Some cb"
    and "cs \<noteq> 0" and "enabled cb \<noteq> 0" and "mem (enabled cb) = 0" and "DECAF_ALL oc \<noteq> 0"
  shows "helper_decaf_invoke_opcode_range_callback oc mem cs eip next_eip opc s =
           Some (if transition_class oc eip next_eip AND 1 \<noteq> 0 then [] else [cb])"
  using assms
  by (simp add: helper_decaf_invoke_opcode_range_callback_def Let_def not_less [symmetric])

text \<open>
  C3. The claim is that the handler is called exactly when the registration's condition
  includes the class of the transition. The source tests
  \<open>temp & (*(cb_struct->enabled) == 0)\<close>, which C reads as \<open>temp & (cond == 0)\<close>. With the
  enumeration values \<open>1\<close>, \<open>2\<close>, \<open>4\<close>, \<open>8\<close> and \<open>DECAF_ALL = 15\<close>, a registration whose
  condition is user-to-user only (\<open>1\<close>) is called for the kernel-to-kernel transition from
  \<open>0x80001000\<close> to \<open>0x80002000\<close>, whose class \<open>8\<close> the condition does not include.
\<close>

theorem opcode_range_condition_not_applied:
  "(case decaf_register_opcode_range_callback
           \<lparr>handle = 1, enabled = 0, from_addr = 0, to_addr = 0, ocb_type = OCB_ALL,
            callback = 0\<rparr> 11 21 0x10 0x1f
           (decaf_callback_init static_init :: 32 word decaf_state) of
      None \<Rightarrow> False
    | Some (s1, h1) \<Rightarrow>
        h1 = 1 \<and>
        transition_class
          \<lparr>DECAF_USER_TO_USER_ONLY = 1, DECAF_USER_TO_KERNEL_ONLY = 2,
           DECAF_KERNEL_TO_USER_ONLY = 4, DECAF_KERNEL_TO_KERNEL_ONLY = 8, DECAF_ALL = 15\<rparr>
          (0x80001000 :: 32 word) (0x80002000 :: 32 word) = 8 \<and>
        (8 :: int) AND ((\<lambda>a. 0)(21 := 1 :: int)) 21 = 0 \<and>
        helper_decaf_invoke_opcode_range_callback
          \<lparr>DECAF_USER_TO_USER_ONLY = 1, DECAF_USER_TO_KERNEL_ONLY = 2,
           DECAF_KERNEL_TO_USER_ONLY = 4, DECAF_KERNEL_TO_KERNEL_ONLY = 8, DECAF_ALL = 15\<rparr>
          ((\<lambda>a. 0)(21 := 1)) 1 0x80001000 0x80002000 0x10 s1
        = Some [\<lparr>handle = 1, enabled = 21, from_addr = 0x10, to_addr = 0x1f,
                 ocb_type = OCB_ALL, callback = 11\<rparr>])"
  by (simp add: register_opcode_range_in_table set_slots_apply
      helper_decaf_invoke_opcode_range_callback_def transition_class_def kernel_base_def
      Let_def)

end
